theory Spec2Isabelle
  imports Complex_Main
begin

text \<open>
  A model of the two scene components \<open>src/app/babylon/AssetTestScene.tsx\<close> and
  \<open>src/app/babylon/ArcheryGameScene.tsx\<close>: the helper \<open>getBoundingBox\<close>, the
  asynchronous \<open>loadAsset\<close>, and the \<open>Promise.all(...).then(...)\<close> that loads each
  scene's assets. The rendering engine and its loader are outside the repository; what
  the scenes use of them is modelled below or taken as a parameter.
\<close>

section \<open>Numbers and vectors\<close>

text \<open>
  The scenes compute with JavaScript numbers. Coordinates, sizes and target sizes are
  modelled as reals (rounding and overflow of doubles are outside the model). The one
  operation of the source that leaves the finite numbers is the division
  \<open>targetSize / currentSize\<close>: JavaScript does not raise on a zero divisor, it yields
  \<open>Infinity\<close>, \<open>-Infinity\<close> or \<open>NaN\<close>. HOL's \<open>x / 0 = 0\<close> would hide that, so
  the quotient lives in a type of its own.
\<close>

datatype number = Finite real | PosInfinity | NegInfinity | NaN

text \<open>
  The JavaScript \<open>/\<close> on two finite numbers. The divisor of the source is the result of
  \<open>Math.max\<close> over \<open>Math.abs\<close> values, so a zero divisor is always \<open>+0\<close>.
\<close>

definition js_div :: "real \<Rightarrow> real \<Rightarrow> number" where
  "js_div a b =
     (if b \<noteq> 0 then Finite (a / b)
      else if a > 0 then PosInfinity
      else if a < 0 then NegInfinity
      else NaN)"

datatype 'a vector3 = Vector3 (vx: 'a) (vy: 'a) (vz: 'a)

text \<open>
  The engine's \<open>Vector3.Minimize\<close>, \<open>Vector3.Maximize\<close>, \<open>subtract\<close> and
  \<open>Vector3.Zero\<close>: \<open>Minimize\<close> copies \<open>left\<close> and replaces a component by the one of
  \<open>right\<close> where that is strictly smaller, \<open>Maximize\<close> where it is strictly larger.
\<close>

definition Minimize :: "real vector3 \<Rightarrow> real vector3 \<Rightarrow> real vector3" where
  "Minimize left right =
     Vector3 (if vx right < vx left then vx right else vx left)
             (if vy right < vy left then vy right else vy left)
             (if vz right < vz left then vz right else vz left)"

definition Maximize :: "real vector3 \<Rightarrow> real vector3 \<Rightarrow> real vector3" where
  "Maximize left right =
     Vector3 (if vx right > vx left then vx right else vx left)
             (if vy right > vy left then vy right else vy left)
             (if vz right > vz left then vz right else vz left)"

definition subtract :: "real vector3 \<Rightarrow> real vector3 \<Rightarrow> real vector3" where
  "subtract a b = Vector3 (vx a - vx b) (vy a - vy b) (vz a - vz b)"

definition Zero :: "real vector3" where
  "Zero = Vector3 0 0 0"

section \<open>Scene nodes\<close>

text \<open>
  A node of the scene graph, as far as the scenes read and write it. \<open>parent\<close> is
  \<open>None\<close> for \<open>null\<close>. The source probes a parent for its capabilities
  (\<open>'scaling' in rootMesh.parent\<close>, likewise \<open>position\<close> and \<open>rotation\<close>), so each
  of the three properties is optional: \<open>None\<close> says the object has no such property (a
  camera has a position and no scaling). \<open>instanceofMesh\<close> is the outcome of
  \<open>m instanceof Mesh\<close>; \<open>minimumWorld\<close> and \<open>maximumWorld\<close> are the corners of
  \<open>getBoundingInfo().boundingBox\<close>.
\<close>

type_synonym node_id = nat

record node =
  instanceofMesh :: bool
  parent :: "node_id option"
  scaling :: "number vector3 option"
  position :: "real vector3 option"
  rotation :: "real vector3 option"
  minimumWorld :: "real vector3"
  maximumWorld :: "real vector3"

record bounding_box =
  bb_min :: "real vector3"
  bb_max :: "real vector3"
  bb_size :: "real vector3"

section \<open>getBoundingBox\<close>

text \<open>
  Both scene files declare the helper. The running \<open>min\<close> and \<open>max\<close> start at the
  first mesh's corners; \<open>forEach\<close> then visits every mesh (the first one again) and
  skips what is not an instance of \<open>Mesh\<close>.
\<close>

definition AssetTestScene_getBoundingBox :: "node list \<Rightarrow> bounding_box option" where
  "AssetTestScene_getBoundingBox meshes =
     (if length meshes = 0 then None
      else
        let min0 = minimumWorld (meshes ! 0);
            max0 = maximumWorld (meshes ! 0);
            (mn, mx) =
              fold (\<lambda>mesh (mn, mx).
                      if instanceofMesh mesh
                      then (Minimize mn (minimumWorld mesh), Maximize mx (maximumWorld mesh))
                      else (mn, mx))
                   meshes (min0, max0)
        in Some \<lparr>bb_min = mn, bb_max = mx, bb_size = subtract mx mn\<rparr>)"

definition ArcheryGameScene_getBoundingBox :: "node list \<Rightarrow> bounding_box option" where
  "ArcheryGameScene_getBoundingBox meshes =
     (if length meshes = 0 then None
      else
        let min0 = minimumWorld (meshes ! 0);
            max0 = maximumWorld (meshes ! 0);
            (mn, mx) =
              fold (\<lambda>mesh (mn, mx).
                      if instanceofMesh mesh
                      then (Minimize mn (minimumWorld mesh), Maximize mx (maximumWorld mesh))
                      else (mn, mx))
                   meshes (min0, max0)
        in Some \<lparr>bb_min = mn, bb_max = mx, bb_size = subtract mx mn\<rparr>)"


text \<open>
  The largest extent and the scale factor, computed inline by \<open>loadAsset\<close> in each
  file: \<open>Math.max(Math.abs(size.x), Math.abs(size.y), Math.abs(size.z))\<close> and
  \<open>targetSize / currentSize\<close>.
\<close>

definition AssetTestScene_currentSize :: "bounding_box \<Rightarrow> real" where
  "AssetTestScene_currentSize boundingBox =
     max (max \<bar>vx (bb_size boundingBox)\<bar> \<bar>vy (bb_size boundingBox)\<bar>) \<bar>vz (bb_size boundingBox)\<bar>"

definition AssetTestScene_scaleFactor :: "real \<Rightarrow> bounding_box \<Rightarrow> number" where
  "AssetTestScene_scaleFactor targetSize boundingBox =
     js_div targetSize (AssetTestScene_currentSize boundingBox)"

definition ArcheryGameScene_currentSize :: "bounding_box \<Rightarrow> real" where
  "ArcheryGameScene_currentSize boundingBox =
     max (max \<bar>vx (bb_size boundingBox)\<bar> \<bar>vy (bb_size boundingBox)\<bar>) \<bar>vz (bb_size boundingBox)\<bar>"

definition ArcheryGameScene_scaleFactor :: "real \<Rightarrow> bounding_box \<Rightarrow> number" where
  "ArcheryGameScene_scaleFactor targetSize boundingBox =
     js_div targetSize (ArcheryGameScene_currentSize boundingBox)"

section \<open>Scene state\<close>

text \<open>
  The store maps object references to nodes, so that a write through
  \<open>rootMesh.parent\<close> is seen by every holder of that reference. The component state
  (\<open>loadedAssets\<close>, \<open>loading\<close>) and the console are part of the state; a console
  entry keeps which message was printed and its arguments.
\<close>

type_synonym store = "node_id \<Rightarrow> node"

datatype thrown = ErrorObject string | NotAnError

datatype console_entry =
    WarnNoValidMeshes string
  | WarnNoMeshes string
  | LogScaled string real real number
  | LogLoadedMeshes string nat "real vector3"
  | LogLoaded string "real vector3"
  | ErrorLoading string thrown
  | ErrorDetails string
  | LogAllAssetsLoaded
  | LogGameSceneLoaded
  | LogBowPositioned "real vector3 option"
  | LogBowScale "number vector3 option"
  | LogTargetPositioned "real vector3 option"
  | LogTargetScale "number vector3 option"

record scene_state =
  nodes :: store
  loadedAssets :: "string list"
  loading :: bool
  console :: "console_entry list"

datatype js_value = Undefined | Null | NodeRef node_id

text \<open>
  \<open>await SceneLoader.ImportMeshAsync('', baseUrl, fileName, scene)\<close>: the loader is
  outside the repository and is a parameter. It either throws or yields
  \<open>result.meshes\<close>, and it adds the nodes it created to the scene.
\<close>

datatype import_result = Rejected thrown | Resolved "node_id list"

type_synonym importer = "string \<Rightarrow> string \<Rightarrow> store \<Rightarrow> import_result \<times> store"

definition set_scaling :: "node_id \<Rightarrow> number vector3 \<Rightarrow> scene_state \<Rightarrow> scene_state" where
  "set_scaling n v s = s\<lparr>nodes := (nodes s)(n := (nodes s n)\<lparr>scaling := Some v\<rparr>)\<rparr>"

definition set_position :: "node_id \<Rightarrow> real vector3 \<Rightarrow> scene_state \<Rightarrow> scene_state" where
  "set_position n v s = s\<lparr>nodes := (nodes s)(n := (nodes s n)\<lparr>position := Some v\<rparr>)\<rparr>"

definition set_rotation :: "node_id \<Rightarrow> real vector3 \<Rightarrow> scene_state \<Rightarrow> scene_state" where
  "set_rotation n v s = s\<lparr>nodes := (nodes s)(n := (nodes s n)\<lparr>rotation := Some v\<rparr>)\<rparr>"

definition console_write :: "console_entry \<Rightarrow> scene_state \<Rightarrow> scene_state" where
  "console_write e s = s\<lparr>console := console s @ [e]\<rparr>"

definition setLoadedAssets :: "(string list \<Rightarrow> string list) \<Rightarrow> scene_state \<Rightarrow> scene_state" where
  "setLoadedAssets f s = s\<lparr>loadedAssets := f (loadedAssets s)\<rparr>"

definition setLoading :: "bool \<Rightarrow> scene_state \<Rightarrow> scene_state" where
  "setLoading b s = s\<lparr>loading := b\<rparr>"

text \<open>
  \<open>mesh.parent && 'prop' in mesh.parent\<close>, for \<open>prop\<close> one of \<open>scaling\<close>,
  \<open>position\<close>, \<open>rotation\<close>: the parent where the test passes, \<open>None\<close> where it
  fails.
\<close>

definition parent_with :: "(node \<Rightarrow> 'a option) \<Rightarrow> node_id \<Rightarrow> scene_state \<Rightarrow> node_id option" where
  "parent_with prop mesh s =
     (case parent (nodes s mesh) of
        None \<Rightarrow> None
      | Some p \<Rightarrow> if prop (nodes s p) \<noteq> None then Some p else None)"

text \<open>
  \<open>result.meshes.find(mesh => !mesh.parent) || result.meshes[0]\<close>, the same expression
  in both files; it is evaluated only where \<open>result.meshes.length > 0\<close>.
\<close>

definition find_rootMesh :: "store \<Rightarrow> node_id list \<Rightarrow> node_id" where
  "find_rootMesh ns result_meshes =
     (case find (\<lambda>mesh. parent (ns mesh) = None) result_meshes of
        Some mesh \<Rightarrow> mesh
      | None \<Rightarrow> result_meshes ! 0)"


section \<open>loadAsset\<close>

text \<open>
  \<open>loadAsset\<close> of \<open>AssetTestScene.tsx\<close>, from the point where the awaited import
  settles. Everything after the \<open>await\<close> runs without another suspension, so the
  function is one state transition. It has no \<open>return\<close> with a value: the promise
  resolves to \<open>undefined\<close> on every path.
\<close>

definition AssetTestScene_loadAsset ::
  "importer \<Rightarrow> string \<Rightarrow> string \<Rightarrow> real vector3 \<Rightarrow> string \<Rightarrow> real \<Rightarrow>
   scene_state \<Rightarrow> js_value \<times> scene_state" where
  "AssetTestScene_loadAsset ImportMeshAsync folderPath fileName pos name targetSize s0 =
     (let baseUrl = ''/assets/'' @ folderPath @ ''/'';
          (result, ns) = ImportMeshAsync baseUrl fileName (nodes s0);
          s = s0\<lparr>nodes := ns\<rparr>
      in case result of
           Rejected err \<Rightarrow>
             (let s = console_write (ErrorLoading name err) s;
                  s = (case err of
                         ErrorObject message \<Rightarrow> console_write (ErrorDetails message) s
                       | NotAnError \<Rightarrow> s)
              in (Undefined, s))
         | Resolved result_meshes \<Rightarrow>
             if length result_meshes > 0 then
               (let meshes = filter (\<lambda>m. instanceofMesh (nodes s m)) result_meshes
                in if length meshes = 0
                   then (Undefined, console_write (WarnNoValidMeshes name) s)
                   else
                     (let rootMesh = find_rootMesh (nodes s) result_meshes;
                          boundingBox = AssetTestScene_getBoundingBox (map (nodes s) meshes);
                          s = (case boundingBox of
                                 None \<Rightarrow> s
                               | Some bb \<Rightarrow>
                                   (let currentSize = AssetTestScene_currentSize bb;
                                        scaleFactor = AssetTestScene_scaleFactor targetSize bb;
                                        s = (case parent_with scaling rootMesh s of
                                               Some p \<Rightarrow>
                                                 set_scaling p
                                                   (Vector3 scaleFactor scaleFactor scaleFactor) s
                                             | None \<Rightarrow>
                                                 set_scaling rootMesh
                                                   (Vector3 scaleFactor scaleFactor scaleFactor) s)
                                    in console_write
                                         (LogScaled name currentSize targetSize scaleFactor) s));
                          s = set_position rootMesh pos s;
                          s = (case parent_with position rootMesh s of
                                 Some p \<Rightarrow> set_position rootMesh Zero (set_position p pos s)
                               | None \<Rightarrow> s);
                          s = setLoadedAssets (\<lambda>prev. prev @ [name]) s;
                          s = console_write
                                (LogLoadedMeshes name (length result_meshes) pos) s
                      in (Undefined, s)))
             else (Undefined, console_write (WarnNoMeshes name) s))"

text \<open>
  \<open>loadAsset\<close> of \<open>ArcheryGameScene.tsx\<close>: it takes a rotation as well, returns the
  root mesh on success and \<open>null\<close> otherwise, and has no \<open>else\<close> for an import that
  yields no meshes at all.
\<close>

definition ArcheryGameScene_loadAsset ::
  "importer \<Rightarrow> string \<Rightarrow> string \<Rightarrow> real vector3 \<Rightarrow> real vector3 \<Rightarrow> string \<Rightarrow> real \<Rightarrow>
   scene_state \<Rightarrow> js_value \<times> scene_state" where
  "ArcheryGameScene_loadAsset ImportMeshAsync folderPath fileName pos rot name targetSize s0 =
     (let baseUrl = ''/assets/'' @ folderPath @ ''/'';
          (result, ns) = ImportMeshAsync baseUrl fileName (nodes s0);
          s = s0\<lparr>nodes := ns\<rparr>
      in case result of
           Rejected err \<Rightarrow> (Null, console_write (ErrorLoading name err) s)
         | Resolved result_meshes \<Rightarrow>
             if length result_meshes > 0 then
               (let meshes = filter (\<lambda>m. instanceofMesh (nodes s m)) result_meshes
                in if length meshes = 0
                   then (Null, console_write (WarnNoValidMeshes name) s)
                   else
                     (let rootMesh = find_rootMesh (nodes s) result_meshes;
                          boundingBox = ArcheryGameScene_getBoundingBox (map (nodes s) meshes);
                          s = (case boundingBox of
                                 None \<Rightarrow> s
                               | Some bb \<Rightarrow>
                                   (let scaleFactor = ArcheryGameScene_scaleFactor targetSize bb
                                    in case parent_with scaling rootMesh s of
                                         Some p \<Rightarrow>
                                           set_scaling p
                                             (Vector3 scaleFactor scaleFactor scaleFactor) s
                                       | None \<Rightarrow>
                                           set_scaling rootMesh
                                             (Vector3 scaleFactor scaleFactor scaleFactor) s));
                          s = (case parent_with position rootMesh s of
                                 Some p \<Rightarrow>
                                   (let s = set_position p pos s;
                                        s = (if rotation (nodes s p) \<noteq> None
                                             then set_rotation p rot s else s)
                                    in set_position rootMesh Zero s)
                               | None \<Rightarrow> set_rotation rootMesh rot (set_position rootMesh pos s));
                          s = setLoadedAssets (\<lambda>prev. prev @ [name]) s;
                          s = console_write (LogLoaded name pos) s
                      in (NodeRef rootMesh, s)))
             else (Null, s))"

section \<open>The batches\<close>

text \<open>
  \<open>Promise.all([...]).then(...)\<close>: every call of \<open>loadAsset\<close> suspends at its
  \<open>await\<close>; the event loop resumes the calls one at a time, in the order in which
  their imports settle. \<open>order\<close> is that completion order, as indices into the array
  of calls. The results are collected by request index. \<open>loadAsset\<close> catches what the
  import throws, so none of the promises rejects and the \<open>then\<close> callback runs once
  all have settled.
\<close>

type_synonym task = "scene_state \<Rightarrow> js_value \<times> scene_state"

fun settle :: "task list \<Rightarrow> nat list \<Rightarrow> (nat \<Rightarrow> js_value) \<Rightarrow> scene_state \<Rightarrow>
               (nat \<Rightarrow> js_value) \<times> scene_state" where
  "settle tasks [] results s = (results, s)"
| "settle tasks (i # order) results s =
     (if i < length tasks
      then (let (v, s') = (tasks ! i) s in settle tasks order (results(i := v)) s')
      else settle tasks order results s)"

definition Promise_all :: "task list \<Rightarrow> nat list \<Rightarrow> scene_state \<Rightarrow> js_value list \<times> scene_state" where
  "Promise_all tasks order s =
     (let (results, s') = settle tasks order (\<lambda>i. Undefined) s
      in (map results [0..<length tasks], s'))"

definition AssetTestScene_tasks :: "importer \<Rightarrow> task list" where
  "AssetTestScene_tasks ImportMeshAsync =
     [AssetTestScene_loadAsset ImportMeshAsync ''recurve_bow'' ''scene.gltf''
        (Vector3 (-4) 1 0) ''Recurve Bow'' 2.5,
      AssetTestScene_loadAsset ImportMeshAsync ''arrow'' ''scene.gltf''
        (Vector3 0 1 0) ''Arrow'' 5,
      AssetTestScene_loadAsset ImportMeshAsync ''target'' ''scene.gltf''
        (Vector3 4 1 0) ''Target'' 3]"

definition AssetTestScene_useEffect :: "importer \<Rightarrow> nat list \<Rightarrow> scene_state \<Rightarrow> scene_state" where
  "AssetTestScene_useEffect ImportMeshAsync order s0 =
     (let (results, s) = Promise_all (AssetTestScene_tasks ImportMeshAsync) order s0;
          s = setLoading False s
      in console_write LogAllAssetsLoaded s)"

text \<open>
  The engine's \<open>setParent\<close> keeps the node's world transform: it recomputes the local
  scaling, rotation and position against the new parent and then sets the parent. The
  recomputation is the engine's matrix arithmetic and is a parameter.
\<close>

type_synonym decompose =
  "store \<Rightarrow> node_id \<Rightarrow> node_id \<Rightarrow> number vector3 \<times> real vector3 \<times> real vector3"

definition setParent :: "decompose \<Rightarrow> node_id \<Rightarrow> node_id \<Rightarrow> scene_state \<Rightarrow> scene_state" where
  "setParent localTransform n p s =
     (let (sc, rot, pos) = localTransform (nodes s) n p
      in s\<lparr>nodes := (nodes s)
             (n := (nodes s n)\<lparr>parent := Some p, scaling := Some sc,
                                position := Some pos, rotation := Some rot\<rparr>)\<rparr>)"

definition ArcheryGameScene_tasks :: "importer \<Rightarrow> task list" where
  "ArcheryGameScene_tasks ImportMeshAsync =
     [ArcheryGameScene_loadAsset ImportMeshAsync ''recurve_bow'' ''scene.gltf''
        (Vector3 0 0 0) (Vector3 0 0 0) ''Recurve Bow'' 0.8,
      ArcheryGameScene_loadAsset ImportMeshAsync ''target'' ''scene.gltf''
        (Vector3 0 1.5 12) (Vector3 0 (pi / 2) 0) ''Target'' 4]"

definition ArcheryGameScene_then ::
  "decompose \<Rightarrow> node_id \<Rightarrow> js_value list \<Rightarrow> scene_state \<Rightarrow> scene_state" where
  "ArcheryGameScene_then localTransform camera results s =
     (let s = setLoading False s;
          s = console_write LogGameSceneLoaded s;
          bowRef = results ! 0;
          targetRef = results ! 1;
          s = (case bowRef of
                 NodeRef bow \<Rightarrow>
                   if instanceofMesh (nodes s bow) then
                     (let s = console_write (LogBowPositioned (position (nodes s bow))) s;
                          s = console_write (LogBowScale (scaling (nodes s bow))) s;
                          s = setParent localTransform bow camera s;
                          s = set_position bow (Vector3 0 (- 0.2) 1.2) s
                      in set_rotation bow (Vector3 0 (pi / 12) (pi / 2)) s)
                   else s
               | _ \<Rightarrow> s)
      in case targetRef of
           NodeRef target \<Rightarrow>
             if instanceofMesh (nodes s target) then
               (let s = console_write (LogTargetPositioned (position (nodes s target))) s
                in console_write (LogTargetScale (scaling (nodes s target))) s)
             else s
         | _ \<Rightarrow> s)"

definition ArcheryGameScene_useEffect ::
  "importer \<Rightarrow> decompose \<Rightarrow> node_id \<Rightarrow> nat list \<Rightarrow> scene_state \<Rightarrow> scene_state" where
  "ArcheryGameScene_useEffect ImportMeshAsync localTransform camera order s0 =
     (let (results, s) = Promise_all (ArcheryGameScene_tasks ImportMeshAsync) order s0
      in ArcheryGameScene_then localTransform camera results s)"

section \<open>The specification's words\<close>

text \<open>
  The union bounding box as the specification describes it: the component-wise minimum
  of the minimum corners, the component-wise maximum of the maximum corners, and their
  difference. It is compared with what \<open>getBoundingBox\<close> computes.
\<close>

definition union_box :: "node list \<Rightarrow> bounding_box" where
  "union_box ms =
     (let mn = Vector3 (Min (vx ` minimumWorld ` set ms))
                       (Min (vy ` minimumWorld ` set ms))
                       (Min (vz ` minimumWorld ` set ms));
          mx = Vector3 (Max (vx ` maximumWorld ` set ms))
                       (Max (vy ` maximumWorld ` set ms))
                       (Max (vz ` maximumWorld ` set ms))
      in \<lparr>bb_min = mn, bb_max = mx,
          bb_size = Vector3 (vx mx - vx mn) (vy mx - vy mn) (vz mx - vz mn)\<rparr>)"

text \<open>
  The node that carries the scale, and the node that carries the position, as the
  capability tests of \<open>loadAsset\<close> decide: the root's parent where it exists and has
  the property, the root itself otherwise.
\<close>

definition scale_target :: "store \<Rightarrow> node_id \<Rightarrow> node_id" where
  "scale_target ns rootMesh =
     (case parent (ns rootMesh) of
        None \<Rightarrow> rootMesh
      | Some p \<Rightarrow> if scaling (ns p) \<noteq> None then p else rootMesh)"

definition position_target :: "store \<Rightarrow> node_id \<Rightarrow> node_id" where
  "position_target ns rootMesh =
     (case parent (ns rootMesh) of
        None \<Rightarrow> rootMesh
      | Some p \<Rightarrow> if position (ns p) \<noteq> None then p else rootMesh)"

text \<open>
  The node that carries the rotation in the game scene, if any: the root where no parent
  takes the position; the parent that takes the position if it has a rotation property
  as well; no node otherwise.
\<close>

definition rotation_target :: "store \<Rightarrow> node_id \<Rightarrow> node_id option" where
  "rotation_target ns rootMesh =
     (case parent (ns rootMesh) of
        None \<Rightarrow> Some rootMesh
      | Some p \<Rightarrow>
          if position (ns p) \<noteq> None
          then (if rotation (ns p) \<noteq> None then Some p else None)
          else Some rootMesh)"

text \<open>
  The fate of an import when it settles on the store \<open>ns\<close>: usable, if it resolves with
  at least one instance of \<open>Mesh\<close> among its nodes.
\<close>

definition import_usable :: "importer \<Rightarrow> string \<Rightarrow> string \<Rightarrow> store \<Rightarrow> bool" where
  "import_usable ImportMeshAsync folderPath fileName ns =
     (case ImportMeshAsync (''/assets/'' @ folderPath @ ''/'') fileName ns of
        (Rejected err, ns') \<Rightarrow> False
      | (Resolved result_meshes, ns') \<Rightarrow>
          filter (\<lambda>m. instanceofMesh (ns' m)) result_meshes \<noteq> [])"

text \<open>
  The assets of the two batches, in request order: the folder each is imported from and
  the display name it is listed under.
\<close>

definition AssetTestScene_assets :: "(string \<times> string) list" where
  "AssetTestScene_assets =
     [(''recurve_bow'', ''Recurve Bow''), (''arrow'', ''Arrow''), (''target'', ''Target'')]"

definition ArcheryGameScene_assets :: "(string \<times> string) list" where
  "ArcheryGameScene_assets = [(''recurve_bow'', ''Recurve Bow''), (''target'', ''Target'')]"

section \<open>The transform statements of loadAsset, named\<close>

text \<open>
  The statement that writes the scale, and the statements that write position and
  rotation, as they stand in the two \<open>loadAsset\<close> functions. The proofs below first
  show that a successful \<open>loadAsset\<close> is the composition of these steps.
\<close>

definition scale_step :: "node_id \<Rightarrow> number \<Rightarrow> scene_state \<Rightarrow> scene_state" where
  "scale_step rootMesh f s =
     (case parent_with scaling rootMesh s of
        Some p \<Rightarrow> set_scaling p (Vector3 f f f) s
      | None \<Rightarrow> set_scaling rootMesh (Vector3 f f f) s)"

definition AssetTestScene_position_step :: "node_id \<Rightarrow> real vector3 \<Rightarrow> scene_state \<Rightarrow> scene_state" where
  "AssetTestScene_position_step rootMesh pos s0 =
     (let s = set_position rootMesh pos s0
      in case parent_with position rootMesh s of
           Some p \<Rightarrow> set_position rootMesh Zero (set_position p pos s)
         | None \<Rightarrow> s)"

definition ArcheryGameScene_position_step ::
  "node_id \<Rightarrow> real vector3 \<Rightarrow> real vector3 \<Rightarrow> scene_state \<Rightarrow> scene_state" where
  "ArcheryGameScene_position_step rootMesh pos rot s =
     (case parent_with position rootMesh s of
        Some p \<Rightarrow>
          (let s = set_position p pos s;
               s = (if rotation (nodes s p) \<noteq> None then set_rotation p rot s else s)
           in set_position rootMesh Zero s)
      | None \<Rightarrow> set_rotation rootMesh rot (set_position rootMesh pos s))"

section \<open>Example scenes\<close>

text \<open>
  Two meshes of one asset: a parentless root and a child of it. Their union box is
  \<open>(-1, -3, -1)\<close> to \<open>(1, 2, 1)\<close>, of size \<open>(2, 5, 2)\<close>.
\<close>

definition mesh_a :: node where
  "mesh_a = \<lparr>instanceofMesh = True, parent = None,
             scaling = Some (Vector3 (Finite 1) (Finite 1) (Finite 1)),
             position = Some (Vector3 0 0 0), rotation = Some (Vector3 0 0 0),
             minimumWorld = Vector3 (-1) 0 (-1), maximumWorld = Vector3 1 1 0\<rparr>"

definition mesh_b :: node where
  "mesh_b = \<lparr>instanceofMesh = True, parent = Some 0,
             scaling = Some (Vector3 (Finite 1) (Finite 1) (Finite 1)),
             position = Some (Vector3 0 0 0), rotation = Some (Vector3 0 0 0),
             minimumWorld = Vector3 0 (-3) 0, maximumWorld = Vector3 (1/2) 2 1\<rparr>"

text \<open>
  A scene without the asset: every reference holds a node that is no mesh and has none
  of the three properties. The component starts with \<open>loading = true\<close> and an empty
  \<open>loadedAssets\<close>.
\<close>

definition no_node :: node where
  "no_node = \<lparr>instanceofMesh = False, parent = None, scaling = None, position = None,
              rotation = None, minimumWorld = Vector3 0 0 0, maximumWorld = Vector3 0 0 0\<rparr>"

definition empty_scene :: store where
  "empty_scene = (\<lambda>n. no_node)"

definition initial_state :: "store \<Rightarrow> scene_state" where
  "initial_state ns = \<lparr>nodes = ns, loadedAssets = [], loading = True, console = []\<rparr>"

text \<open>An import that yields the two meshes above, at references 0 and 1.\<close>

definition import_ab :: importer where
  "import_ab baseUrl fileName ns = (Resolved [0, 1], ns(0 := mesh_a, 1 := mesh_b))"

text \<open>
  One mesh, at reference 4, under a wrapper transform node at reference 3, which is not
  among \<open>result.meshes\<close> and has all three properties; and the same mesh held by a
  camera at reference 2, which has a position and a rotation and no scaling. The mesh's
  box has size \<open>(1, 2, 1)\<close>.
\<close>

definition mesh_c :: node where
  "mesh_c = \<lparr>instanceofMesh = True, parent = Some 3,
             scaling = Some (Vector3 (Finite 1) (Finite 1) (Finite 1)),
             position = Some (Vector3 0 1 0), rotation = Some (Vector3 0 0 0),
             minimumWorld = Vector3 0 0 0, maximumWorld = Vector3 1 2 1\<rparr>"

definition wrapper :: node where
  "wrapper = \<lparr>instanceofMesh = False, parent = None,
              scaling = Some (Vector3 (Finite 1) (Finite 1) (Finite 1)),
              position = Some (Vector3 0 0 0), rotation = Some (Vector3 0 0 0),
              minimumWorld = Vector3 0 0 0, maximumWorld = Vector3 0 0 0\<rparr>"

definition import_wrapped :: importer where
  "import_wrapped baseUrl fileName ns = (Resolved [4], ns(4 := mesh_c, 3 := wrapper))"

definition mesh_held :: node where
  "mesh_held = \<lparr>instanceofMesh = True, parent = Some 2,
                scaling = Some (Vector3 (Finite 1) (Finite 1) (Finite 1)),
                position = Some (Vector3 0 1 0), rotation = Some (Vector3 0 0 0),
                minimumWorld = Vector3 0 0 0, maximumWorld = Vector3 1 2 1\<rparr>"

definition camera_node :: node where
  "camera_node = \<lparr>instanceofMesh = False, parent = None, scaling = None,
                  position = Some (Vector3 0 (8 / 5) 0), rotation = Some (Vector3 0 0 0),
                  minimumWorld = Vector3 0 0 0, maximumWorld = Vector3 0 0 0\<rparr>"

definition import_held :: importer where
  "import_held baseUrl fileName ns = (Resolved [4], ns(4 := mesh_held, 2 := camera_node))"

definition wrapped_after_AssetTestScene :: scene_state where
  "wrapped_after_AssetTestScene =
     snd (AssetTestScene_loadAsset import_wrapped ''target'' ''scene.gltf''
            (Vector3 4 1 0) ''Target'' 4 (initial_state empty_scene))"

definition wrapped_after_ArcheryGameScene :: scene_state where
  "wrapped_after_ArcheryGameScene =
     snd (ArcheryGameScene_loadAsset import_wrapped ''target'' ''scene.gltf''
            (Vector3 4 1 0) (Vector3 0 1 0) ''Target'' 4 (initial_state empty_scene))"

definition held_after_AssetTestScene :: scene_state where
  "held_after_AssetTestScene =
     snd (AssetTestScene_loadAsset import_held ''recurve_bow'' ''scene.gltf''
            (Vector3 4 1 0) ''Recurve Bow'' 4 (initial_state empty_scene))"

definition held_after_ArcheryGameScene :: scene_state where
  "held_after_ArcheryGameScene =
     snd (ArcheryGameScene_loadAsset import_held ''recurve_bow'' ''scene.gltf''
            (Vector3 4 1 0) (Vector3 0 1 0) ''Recurve Bow'' 4 (initial_state empty_scene))"

text \<open>
  Imports for the batches: every folder yields the two meshes above, except that the
  arrow's file (for the test scene) or the bow's file (for the game scene) does not
  exist. The game scene's camera is at reference 9, and the engine's recomputation in
  \<open>setParent\<close> is taken to return unit scaling and zero vectors.
\<close>

definition import_arrow_missing :: importer where
  "import_arrow_missing baseUrl fileName ns =
     (if baseUrl = ''/assets/arrow/'' then (Rejected (ErrorObject ''404''), ns)
      else (Resolved [0, 1], ns(0 := mesh_a, 1 := mesh_b)))"

definition import_bow_missing :: importer where
  "import_bow_missing baseUrl fileName ns =
     (if baseUrl = ''/assets/recurve_bow/'' then (Rejected (ErrorObject ''404''), ns)
      else (Resolved [0, 1], ns(0 := mesh_a, 1 := mesh_b)))"

definition unit_transform :: decompose where
  "unit_transform ns n p =
     (Vector3 (Finite 1) (Finite 1) (Finite 1), Vector3 0 0 0, Vector3 0 0 0)"

text \<open>
  A parentless mesh whose box is a single point, at reference 5; and an import that
  resolves with no nodes at all.
\<close>

definition mesh_point :: node where
  "mesh_point = \<lparr>instanceofMesh = True, parent = None,
                 scaling = Some (Vector3 (Finite 1) (Finite 1) (Finite 1)),
                 position = Some (Vector3 0 0 0), rotation = Some (Vector3 0 0 0),
                 minimumWorld = Vector3 1 1 1, maximumWorld = Vector3 1 1 1\<rparr>"

definition import_point :: importer where
  "import_point baseUrl fileName ns = (Resolved [5], ns(5 := mesh_point))"

definition import_nothing :: importer where
  "import_nothing baseUrl fileName ns = (Resolved [], ns)"

text \<open>
  The game scene's two assets: the bow is the wrapped mesh at reference 4, the target
  the two meshes at references 0 and 1.
\<close>

definition import_scene :: importer where
  "import_scene baseUrl fileName ns =
     (if baseUrl = ''/assets/recurve_bow/''
      then (Resolved [4], ns(4 := mesh_c, 3 := wrapper))
      else (Resolved [0, 1], ns(0 := mesh_a, 1 := mesh_b)))"

section \<open>Bounding boxes\<close>

lemma Minimize_min:
  "Minimize a b = Vector3 (min (vx a) (vx b)) (min (vy a) (vy b)) (min (vz a) (vz b))"
  by (simp add: Minimize_def min_def)

lemma Maximize_max:
  "Maximize a b = Vector3 (max (vx a) (vx b)) (max (vy a) (vy b)) (max (vz a) (vz b))"
  by (simp add: Maximize_def max_def)

lemma Min_insert_insert:
  fixes a :: real
  assumes "finite A"
  shows "Min (insert (min a b) A) = Min (insert a (insert b A))"
  using assms by (cases "A = {}") (simp_all add: min.assoc)

lemma Max_insert_insert:
  fixes a :: real
  assumes "finite A"
  shows "Max (insert (max a b) A) = Max (insert a (insert b A))"
  using assms by (cases "A = {}") (simp_all add: max.assoc)

lemma forEach_all_meshes:
  assumes "\<forall>m\<in>set ms. instanceofMesh m"
  shows "fold (\<lambda>mesh (mn, mx).
                  if instanceofMesh mesh
                  then (Minimize mn (minimumWorld mesh), Maximize mx (maximumWorld mesh))
                  else (mn, mx)) ms (a, b) =
         (Vector3 (Min (insert (vx a) (vx ` minimumWorld ` set ms)))
                  (Min (insert (vy a) (vy ` minimumWorld ` set ms)))
                  (Min (insert (vz a) (vz ` minimumWorld ` set ms))),
          Vector3 (Max (insert (vx b) (vx ` maximumWorld ` set ms)))
                  (Max (insert (vy b) (vy ` maximumWorld ` set ms)))
                  (Max (insert (vz b) (vz ` maximumWorld ` set ms))))"
  using assms
proof (induction ms arbitrary: a b)
  case Nil
  show ?case by simp
next
  case (Cons m ms)
  then show ?case
    by (simp add: Minimize_min Maximize_max Min_insert_insert Max_insert_insert)
qed

lemma hd_absorbed:
  "ms \<noteq> [] \<Longrightarrow> insert (f (ms ! 0)) (f ` set ms) = f ` set ms"
  by (cases ms) auto

lemma AssetTestScene_getBoundingBox_union:
  assumes "ms \<noteq> []" and "\<forall>m\<in>set ms. instanceofMesh m"
  shows "AssetTestScene_getBoundingBox ms = Some (union_box ms)"
  using assms
  by (simp add: AssetTestScene_getBoundingBox_def forEach_all_meshes union_box_def
      subtract_def hd_absorbed image_image Let_def)

lemma ArcheryGameScene_getBoundingBox_union:
  assumes "ms \<noteq> []" and "\<forall>m\<in>set ms. instanceofMesh m"
  shows "ArcheryGameScene_getBoundingBox ms = Some (union_box ms)"
  using assms
  by (simp add: ArcheryGameScene_getBoundingBox_def forEach_all_meshes union_box_def
      subtract_def hd_absorbed image_image Let_def)

text \<open>
  Claim C2. For a non-empty list of meshes (instances of \<open>Mesh\<close>, as the parameter
  type says), \<open>getBoundingBox\<close> of either file returns a box whose minimum corner is
  the component-wise minimum of the meshes' world minimum corners, whose maximum corner is
  the component-wise maximum of their world maximum corners, and whose size is the
  difference of the two corners, component by component. For the empty list it returns
  \<open>null\<close>.
\<close>

theorem getBoundingBox_componentwise_union:
  assumes "meshes \<noteq> []" and "\<forall>m\<in>set meshes. instanceofMesh m"
  shows "AssetTestScene_getBoundingBox [] = None \<and>
         ArcheryGameScene_getBoundingBox [] = None \<and>
         (\<exists>bb. AssetTestScene_getBoundingBox meshes = Some bb \<and>
               ArcheryGameScene_getBoundingBox meshes = Some bb \<and>
               vx (bb_min bb) = Min (vx ` minimumWorld ` set meshes) \<and>
               vy (bb_min bb) = Min (vy ` minimumWorld ` set meshes) \<and>
               vz (bb_min bb) = Min (vz ` minimumWorld ` set meshes) \<and>
               vx (bb_max bb) = Max (vx ` maximumWorld ` set meshes) \<and>
               vy (bb_max bb) = Max (vy ` maximumWorld ` set meshes) \<and>
               vz (bb_max bb) = Max (vz ` maximumWorld ` set meshes) \<and>
               bb_size bb = Vector3 (vx (bb_max bb) - vx (bb_min bb))
                                    (vy (bb_max bb) - vy (bb_min bb))
                                    (vz (bb_max bb) - vz (bb_min bb)))"
proof -
  have e: "AssetTestScene_getBoundingBox [] = None" "ArcheryGameScene_getBoundingBox [] = None"
    by (simp_all add: AssetTestScene_getBoundingBox_def ArcheryGameScene_getBoundingBox_def)
  have u: "AssetTestScene_getBoundingBox meshes = Some (union_box meshes)"
       "ArcheryGameScene_getBoundingBox meshes = Some (union_box meshes)"
    using assms by (simp_all add: AssetTestScene_getBoundingBox_union ArcheryGameScene_getBoundingBox_union)
  show ?thesis
    using e u by (simp add: union_box_def Let_def)
qed

theorem getBoundingBox_componentwise_union_witness:
  "[mesh_a, mesh_b] \<noteq> [] \<and> instanceofMesh mesh_a \<and> instanceofMesh mesh_b \<and>
   AssetTestScene_getBoundingBox [mesh_a, mesh_b] =
     Some \<lparr>bb_min = Vector3 (-1) (-3) (-1), bb_max = Vector3 1 2 1, bb_size = Vector3 2 5 2\<rparr> \<and>
   ArcheryGameScene_getBoundingBox [mesh_a, mesh_b] =
     Some \<lparr>bb_min = Vector3 (-1) (-3) (-1), bb_max = Vector3 1 2 1, bb_size = Vector3 2 5 2\<rparr>"
proof -
  have h1: "[mesh_a, mesh_b] \<noteq> []" by simp
  have h2: "\<forall>m\<in>set [mesh_a, mesh_b]. instanceofMesh m"
    by (simp add: mesh_a_def mesh_b_def)
  from getBoundingBox_componentwise_union [OF h1 h2]
  obtain bb where
    bb: "AssetTestScene_getBoundingBox [mesh_a, mesh_b] = Some bb"
        "ArcheryGameScene_getBoundingBox [mesh_a, mesh_b] = Some bb"
    and mn: "vx (bb_min bb) = Min (vx ` minimumWorld ` set [mesh_a, mesh_b])"
        "vy (bb_min bb) = Min (vy ` minimumWorld ` set [mesh_a, mesh_b])"
        "vz (bb_min bb) = Min (vz ` minimumWorld ` set [mesh_a, mesh_b])"
    and mx: "vx (bb_max bb) = Max (vx ` maximumWorld ` set [mesh_a, mesh_b])"
        "vy (bb_max bb) = Max (vy ` maximumWorld ` set [mesh_a, mesh_b])"
        "vz (bb_max bb) = Max (vz ` maximumWorld ` set [mesh_a, mesh_b])"
    and sz: "bb_size bb = Vector3 (vx (bb_max bb) - vx (bb_min bb))
                                  (vy (bb_max bb) - vy (bb_min bb))
                                  (vz (bb_max bb) - vz (bb_min bb))"
    by blast
  have "bb_min bb = Vector3 (-1) (-3) (-1)"
    using mn by (simp add: vector3.expand mesh_a_def mesh_b_def)
  moreover have "bb_max bb = Vector3 1 2 1"
    using mx by (simp add: vector3.expand mesh_a_def mesh_b_def)
  ultimately have "bb = \<lparr>bb_min = Vector3 (-1) (-3) (-1), bb_max = Vector3 1 2 1,
                         bb_size = Vector3 2 5 2\<rparr>"
    using sz by simp
  with bb h2 show ?thesis by simp
qed

section \<open>A successful loadAsset, step by step\<close>

lemma filter_meshes_all:
  "\<forall>m\<in>set (map ns (filter (\<lambda>m. instanceofMesh (ns m)) ms)). instanceofMesh m"
  by simp

lemma AssetTestScene_box_of_filtered:
  assumes "filter (\<lambda>m. instanceofMesh (ns m)) ms \<noteq> []"
  shows "AssetTestScene_getBoundingBox (map ns (filter (\<lambda>m. instanceofMesh (ns m)) ms)) =
         Some (union_box (map ns (filter (\<lambda>m. instanceofMesh (ns m)) ms)))"
  using assms by (intro AssetTestScene_getBoundingBox_union filter_meshes_all) simp

lemma ArcheryGameScene_box_of_filtered:
  assumes "filter (\<lambda>m. instanceofMesh (ns m)) ms \<noteq> []"
  shows "ArcheryGameScene_getBoundingBox (map ns (filter (\<lambda>m. instanceofMesh (ns m)) ms)) =
         Some (union_box (map ns (filter (\<lambda>m. instanceofMesh (ns m)) ms)))"
  using assms by (intro ArcheryGameScene_getBoundingBox_union filter_meshes_all) simp

lemma nodes_console_write: "nodes (console_write e s) = nodes s"
  by (simp add: console_write_def)

lemma AssetTestScene_loadAsset_success:
  assumes imp: "ImportMeshAsync (''/assets/'' @ folderPath @ ''/'') fileName (nodes s) =
                  (Resolved result_meshes, ns)"
    and ne: "filter (\<lambda>m. instanceofMesh (ns m)) result_meshes \<noteq> []"
  shows "AssetTestScene_loadAsset ImportMeshAsync folderPath fileName pos name targetSize s =
         (let bb = union_box (map ns (filter (\<lambda>m. instanceofMesh (ns m)) result_meshes));
              rootMesh = find_rootMesh ns result_meshes
          in (Undefined,
              console_write (LogLoadedMeshes name (length result_meshes) pos)
                (setLoadedAssets (\<lambda>prev. prev @ [name])
                  (AssetTestScene_position_step rootMesh pos
                    (console_write (LogScaled name (AssetTestScene_currentSize bb) targetSize
                                      (AssetTestScene_scaleFactor targetSize bb))
                      (scale_step rootMesh (AssetTestScene_scaleFactor targetSize bb)
                        (s\<lparr>nodes := ns\<rparr>)))))))"
proof -
  have "result_meshes \<noteq> []" using ne by auto
  then show ?thesis
    using imp ne
    by (simp add: AssetTestScene_loadAsset_def AssetTestScene_box_of_filtered Let_def
        scale_step_def AssetTestScene_position_step_def cong: option.case_cong)
qed

lemma ArcheryGameScene_loadAsset_success:
  assumes imp: "ImportMeshAsync (''/assets/'' @ folderPath @ ''/'') fileName (nodes s) =
                  (Resolved result_meshes, ns)"
    and ne: "filter (\<lambda>m. instanceofMesh (ns m)) result_meshes \<noteq> []"
  shows "ArcheryGameScene_loadAsset ImportMeshAsync folderPath fileName pos rot name targetSize s =
         (let bb = union_box (map ns (filter (\<lambda>m. instanceofMesh (ns m)) result_meshes));
              rootMesh = find_rootMesh ns result_meshes
          in (NodeRef rootMesh,
              console_write (LogLoaded name pos)
                (setLoadedAssets (\<lambda>prev. prev @ [name])
                  (ArcheryGameScene_position_step rootMesh pos rot
                      (scale_step rootMesh (ArcheryGameScene_scaleFactor targetSize bb)
                        (s\<lparr>nodes := ns\<rparr>))))))"
proof -
  have "result_meshes \<noteq> []" using ne by auto
  then show ?thesis
    using imp ne
    by (simp add: ArcheryGameScene_loadAsset_def ArcheryGameScene_box_of_filtered Let_def
        scale_step_def ArcheryGameScene_position_step_def
        cong: option.case_cong if_cong)
qed

lemma nodes_set_scaling: "nodes (set_scaling n v s) = (nodes s)(n := (nodes s n)\<lparr>scaling := Some v\<rparr>)"
  by (simp add: set_scaling_def)
lemma nodes_set_position: "nodes (set_position n v s) = (nodes s)(n := (nodes s n)\<lparr>position := Some v\<rparr>)"
  by (simp add: set_position_def)
lemma nodes_set_rotation: "nodes (set_rotation n v s) = (nodes s)(n := (nodes s n)\<lparr>rotation := Some v\<rparr>)"
  by (simp add: set_rotation_def)
lemma nodes_setLoadedAssets: "nodes (setLoadedAssets f s) = nodes s"
  by (simp add: setLoadedAssets_def)

lemma scale_step_target:
  "scale_step rootMesh f s = set_scaling (scale_target (nodes s) rootMesh) (Vector3 f f f) s"
  by (simp add: scale_step_def scale_target_def parent_with_def split: option.split)

lemma AssetTestScene_position_step_cases:
  "AssetTestScene_position_step rootMesh pos s =
     (case parent (nodes s rootMesh) of
        None \<Rightarrow> set_position rootMesh pos s
      | Some p \<Rightarrow>
          if p = rootMesh \<or> position (nodes s p) \<noteq> None
          then set_position rootMesh Zero (set_position p pos (set_position rootMesh pos s))
          else set_position rootMesh pos s)"
  by (simp add: AssetTestScene_position_step_def parent_with_def nodes_set_position Let_def
      split: option.split)

lemma ArcheryGameScene_position_step_cases:
  "ArcheryGameScene_position_step rootMesh pos rot s =
     (case parent (nodes s rootMesh) of
        None \<Rightarrow> set_rotation rootMesh rot (set_position rootMesh pos s)
      | Some p \<Rightarrow>
          if position (nodes s p) \<noteq> None
          then set_position rootMesh Zero
                 (if rotation (nodes s p) \<noteq> None
                  then set_rotation p rot (set_position p pos s)
                  else set_position p pos s)
          else set_rotation rootMesh rot (set_position rootMesh pos s))"
  by (simp add: ArcheryGameScene_position_step_def parent_with_def nodes_set_position Let_def
      split: option.split)

lemma scaling_AssetTestScene_position_step:
  "scaling (nodes (AssetTestScene_position_step rootMesh pos s) m) = scaling (nodes s m)"
  by (simp add: AssetTestScene_position_step_cases nodes_set_position split: option.split)

lemma scaling_ArcheryGameScene_position_step:
  "scaling (nodes (ArcheryGameScene_position_step rootMesh pos rot s) m) = scaling (nodes s m)"
  by (simp add: ArcheryGameScene_position_step_cases nodes_set_position nodes_set_rotation
      split: option.split)

lemma scaling_scale_step:
  "scaling (nodes (scale_step rootMesh f s) m) =
     (if m = scale_target (nodes s) rootMesh then Some (Vector3 f f f) else scaling (nodes s m))"
  by (simp add: scale_step_target nodes_set_scaling)

lemma js_div_nonzero: "b \<noteq> 0 \<Longrightarrow> js_div a b = Finite (a / b)"
  by (simp add: js_div_def)

lemma AssetTestScene_loadAsset_rejected:
  assumes "ImportMeshAsync (''/assets/'' @ folderPath @ ''/'') fileName (nodes s) = (Rejected err, ns)"
  shows "AssetTestScene_loadAsset ImportMeshAsync folderPath fileName pos name targetSize s =
         (Undefined,
          case err of
            ErrorObject message \<Rightarrow>
              console_write (ErrorDetails message)
                (console_write (ErrorLoading name err) (s\<lparr>nodes := ns\<rparr>))
          | NotAnError \<Rightarrow> console_write (ErrorLoading name err) (s\<lparr>nodes := ns\<rparr>))"
  using assms by (simp add: AssetTestScene_loadAsset_def Let_def)

lemma ArcheryGameScene_loadAsset_rejected:
  assumes "ImportMeshAsync (''/assets/'' @ folderPath @ ''/'') fileName (nodes s) = (Rejected err, ns)"
  shows "ArcheryGameScene_loadAsset ImportMeshAsync folderPath fileName pos rot name targetSize s =
         (Null, console_write (ErrorLoading name err) (s\<lparr>nodes := ns\<rparr>))"
  using assms by (simp add: ArcheryGameScene_loadAsset_def Let_def)

lemma AssetTestScene_loadAsset_no_geometry:
  assumes "ImportMeshAsync (''/assets/'' @ folderPath @ ''/'') fileName (nodes s) = (Resolved result_meshes, ns)"
    and "filter (\<lambda>m. instanceofMesh (ns m)) result_meshes = []"
  shows "AssetTestScene_loadAsset ImportMeshAsync folderPath fileName pos name targetSize s =
         (Undefined,
          console_write (if result_meshes = [] then WarnNoMeshes name else WarnNoValidMeshes name)
            (s\<lparr>nodes := ns\<rparr>))"
  using assms by (simp add: AssetTestScene_loadAsset_def Let_def)

lemma ArcheryGameScene_loadAsset_no_geometry:
  assumes "ImportMeshAsync (''/assets/'' @ folderPath @ ''/'') fileName (nodes s) = (Resolved result_meshes, ns)"
    and "filter (\<lambda>m. instanceofMesh (ns m)) result_meshes = []"
  shows "ArcheryGameScene_loadAsset ImportMeshAsync folderPath fileName pos rot name targetSize s =
         (Null,
          if result_meshes = [] then s\<lparr>nodes := ns\<rparr>
          else console_write (WarnNoValidMeshes name) (s\<lparr>nodes := ns\<rparr>))"
  using assms by (simp add: ArcheryGameScene_loadAsset_def Let_def)

lemma find_rootMesh_first:
  assumes "result_meshes \<noteq> []"
  shows "(\<exists>i<length result_meshes.
            parent (ns (result_meshes ! i)) = None \<and>
            (\<forall>j<i. parent (ns (result_meshes ! j)) \<noteq> None) \<and>
            find_rootMesh ns result_meshes = result_meshes ! i) \<or>
         ((\<forall>m\<in>set result_meshes. parent (ns m) \<noteq> None) \<and>
          find_rootMesh ns result_meshes = result_meshes ! 0)"
proof (cases "find (\<lambda>mesh. parent (ns mesh) = None) result_meshes")
  case None
  then have "\<forall>m\<in>set result_meshes. parent (ns m) \<noteq> None"
    by (simp add: find_None_iff)
  moreover from None have "find_rootMesh ns result_meshes = result_meshes ! 0"
    by (simp add: find_rootMesh_def)
  ultimately show ?thesis by blast
next
  case (Some r)
  then obtain i where "i < length result_meshes" "parent (ns (result_meshes ! i)) = None"
    "r = result_meshes ! i" "\<forall>j<i. parent (ns (result_meshes ! j)) \<noteq> None"
    by (auto simp: find_Some_iff)
  with Some show ?thesis
    by (auto simp: find_rootMesh_def)
qed

lemma position_AssetTestScene_position_step_root:
  "position (nodes (AssetTestScene_position_step rootMesh pos s) rootMesh) = Some pos \<or>
   position (nodes (AssetTestScene_position_step rootMesh pos s) rootMesh) = Some Zero"
  by (simp add: AssetTestScene_position_step_cases nodes_set_position split: option.split)

lemma position_ArcheryGameScene_position_step_root:
  "position (nodes (ArcheryGameScene_position_step rootMesh pos rot s) rootMesh) = Some pos \<or>
   position (nodes (ArcheryGameScene_position_step rootMesh pos rot s) rootMesh) = Some Zero"
  by (simp add: ArcheryGameScene_position_step_cases nodes_set_position nodes_set_rotation
      split: option.split)

lemma nodes_scale_step:
  "nodes (scale_step rootMesh f s) n =
     (nodes s n)\<lparr>scaling := if n = scale_target (nodes s) rootMesh then Some (Vector3 f f f)
                            else scaling (nodes s n)\<rparr>"
  by (simp add: scale_step_target nodes_set_scaling)

lemma nodes_AssetTestScene_position_step:
  assumes "parent (nodes s rootMesh) \<noteq> Some rootMesh"
  shows "nodes (AssetTestScene_position_step rootMesh pos s) n =
     (nodes s n)\<lparr>position :=
        if n = position_target (nodes s) rootMesh then Some pos
        else if n = rootMesh then Some Zero
        else position (nodes s n)\<rparr>"
  using assms
  by (cases "parent (nodes s rootMesh)")
     (auto simp: AssetTestScene_position_step_cases position_target_def nodes_set_position)

lemma nodes_ArcheryGameScene_position_step:
  assumes "parent (nodes s rootMesh) \<noteq> Some rootMesh"
  shows "nodes (ArcheryGameScene_position_step rootMesh pos rot s) n =
     (nodes s n)\<lparr>position :=
        if n = position_target (nodes s) rootMesh then Some pos
        else if n = rootMesh then Some Zero
        else position (nodes s n),
      rotation :=
        if Some n = rotation_target (nodes s) rootMesh then Some rot
        else rotation (nodes s n)\<rparr>"
  using assms
  by (cases "parent (nodes s rootMesh)")
     (auto simp: ArcheryGameScene_position_step_cases position_target_def rotation_target_def
        nodes_set_position nodes_set_rotation)

lemma position_target_cong:
  assumes "\<And>n. parent (ns' n) = parent (ns n)" "\<And>n. position (ns' n) = position (ns n)"
  shows "position_target ns' r = position_target ns r"
  using assms by (simp add: position_target_def cong: option.case_cong)

lemma rotation_target_cong:
  assumes "\<And>n. parent (ns' n) = parent (ns n)" "\<And>n. position (ns' n) = position (ns n)"
    "\<And>n. rotation (ns' n) = rotation (ns n)"
  shows "rotation_target ns' r = rotation_target ns r"
  using assms by (simp add: rotation_target_def cong: option.case_cong if_cong)

lemma position_target_scale_step:
  "position_target (nodes (scale_step rootMesh f s)) r = position_target (nodes s) r"
  by (rule position_target_cong) (simp_all add: nodes_scale_step)

lemma rotation_target_scale_step:
  "rotation_target (nodes (scale_step rootMesh f s)) r = rotation_target (nodes s) r"
  by (rule rotation_target_cong) (simp_all add: nodes_scale_step)

lemma AssetTestScene_loadAsset_store:
  assumes imp: "ImportMeshAsync (''/assets/'' @ folderPath @ ''/'') fileName (nodes s) =
                  (Resolved result_meshes, ns)"
    and usable: "filter (\<lambda>m. instanceofMesh (ns m)) result_meshes \<noteq> []"
    and acyclic: "parent (ns (find_rootMesh ns result_meshes)) \<noteq> Some (find_rootMesh ns result_meshes)"
  shows "nodes (snd (AssetTestScene_loadAsset ImportMeshAsync folderPath fileName
                       pos name targetSize s)) n =
         (ns n)\<lparr>scaling :=
                   if n = scale_target ns (find_rootMesh ns result_meshes)
                   then Some (let f = AssetTestScene_scaleFactor targetSize
                                        (union_box (map ns (filter (\<lambda>m. instanceofMesh (ns m)) result_meshes)))
                              in Vector3 f f f)
                   else scaling (ns n),
                 position :=
                   if n = position_target ns (find_rootMesh ns result_meshes) then Some pos
                   else if n = find_rootMesh ns result_meshes then Some Zero
                   else position (ns n)\<rparr>"
proof -
  let ?r = "find_rootMesh ns result_meshes"
  show ?thesis
    using acyclic
    unfolding AssetTestScene_loadAsset_success
                [where ImportMeshAsync = ImportMeshAsync and s = s, OF imp usable]
      Let_def snd_conv nodes_console_write nodes_setLoadedAssets
    by (simp add: nodes_AssetTestScene_position_step nodes_console_write
        position_target_scale_step nodes_scale_step)
qed

lemma ArcheryGameScene_loadAsset_store:
  assumes imp: "ImportMeshAsync (''/assets/'' @ folderPath @ ''/'') fileName (nodes s) =
                  (Resolved result_meshes, ns)"
    and usable: "filter (\<lambda>m. instanceofMesh (ns m)) result_meshes \<noteq> []"
    and acyclic: "parent (ns (find_rootMesh ns result_meshes)) \<noteq> Some (find_rootMesh ns result_meshes)"
  shows "nodes (snd (ArcheryGameScene_loadAsset ImportMeshAsync folderPath fileName
                       pos rot name targetSize s)) n =
         (ns n)\<lparr>scaling :=
                   if n = scale_target ns (find_rootMesh ns result_meshes)
                   then Some (let f = ArcheryGameScene_scaleFactor targetSize
                                        (union_box (map ns (filter (\<lambda>m. instanceofMesh (ns m)) result_meshes)))
                              in Vector3 f f f)
                   else scaling (ns n),
                 position :=
                   if n = position_target ns (find_rootMesh ns result_meshes) then Some pos
                   else if n = find_rootMesh ns result_meshes then Some Zero
                   else position (ns n),
                 rotation :=
                   if Some n = rotation_target ns (find_rootMesh ns result_meshes) then Some rot
                   else rotation (ns n)\<rparr>"
proof -
  let ?r = "find_rootMesh ns result_meshes"
  show ?thesis
    using acyclic
    unfolding ArcheryGameScene_loadAsset_success
                [where ImportMeshAsync = ImportMeshAsync and s = s, OF imp usable]
      Let_def snd_conv nodes_console_write nodes_setLoadedAssets
    by (simp add: nodes_ArcheryGameScene_position_step
        position_target_scale_step rotation_target_scale_step nodes_scale_step)
qed

section \<open>The scale factor\<close>

text \<open>
  Claim C1. Let an import resolve, let \<open>meshes\<close> be the instances of \<open>Mesh\<close> among
  its nodes, not empty, and let the largest absolute extent \<open>currentSize\<close> of their
  combined bounding box be non-zero. Then \<open>loadAsset\<close> of either file leaves the chosen
  node (the root's parent if it has a scaling property, the root otherwise) with the
  scaling \<open>(f, f, f)\<close> where \<open>f = targetSize / currentSize\<close>: one factor on all
  three axes.
\<close>

theorem scale_factor_uniform:
  assumes imp: "ImportMeshAsync (''/assets/'' @ folderPath @ ''/'') fileName (nodes s) =
                  (Resolved result_meshes, ns)"
    and meshes: "meshes = filter (\<lambda>m. instanceofMesh (ns m)) result_meshes" "meshes \<noteq> []"
    and bb: "bb = union_box (map ns meshes)"
    and size: "currentSize = max (max \<bar>vx (bb_size bb)\<bar> \<bar>vy (bb_size bb)\<bar>) \<bar>vz (bb_size bb)\<bar>"
              "currentSize \<noteq> 0"
    and root: "rootMesh = find_rootMesh ns result_meshes"
    and target: "target = (case parent (ns rootMesh) of
                             None \<Rightarrow> rootMesh
                           | Some p \<Rightarrow> if scaling (ns p) \<noteq> None then p else rootMesh)"
    and factor: "scaleFactor = Finite (targetSize / currentSize)"
  shows "scaling (nodes (snd (AssetTestScene_loadAsset ImportMeshAsync folderPath fileName
                                pos name targetSize s)) target) =
           Some (Vector3 scaleFactor scaleFactor scaleFactor) \<and>
         scaling (nodes (snd (ArcheryGameScene_loadAsset ImportMeshAsync folderPath fileName
                                pos rot name targetSize s)) target) =
           Some (Vector3 scaleFactor scaleFactor scaleFactor)"
proof -
  have ne: "filter (\<lambda>m. instanceofMesh (ns m)) result_meshes \<noteq> []" using meshes by simp
  have t: "target = scale_target ns rootMesh"
    using target by (simp add: scale_target_def)
  have cs: "AssetTestScene_currentSize bb = currentSize" "ArcheryGameScene_currentSize bb = currentSize"
    unfolding size(1) AssetTestScene_currentSize_def ArcheryGameScene_currentSize_def by (rule refl)+
  have ft: "AssetTestScene_scaleFactor targetSize bb = scaleFactor"
    unfolding AssetTestScene_scaleFactor_def cs factor using size(2) by (rule js_div_nonzero)
  have fg: "ArcheryGameScene_scaleFactor targetSize bb = scaleFactor"
    unfolding ArcheryGameScene_scaleFactor_def cs factor using size(2) by (rule js_div_nonzero)
  have bb': "union_box (map ns (filter (\<lambda>m. instanceofMesh (ns m)) result_meshes)) = bb"
    unfolding bb meshes(1) by (rule refl)
  have T: "snd (AssetTestScene_loadAsset ImportMeshAsync folderPath fileName pos name targetSize s) =
       console_write (LogLoadedMeshes name (length result_meshes) pos)
                (setLoadedAssets (\<lambda>prev. prev @ [name])
                  (AssetTestScene_position_step rootMesh pos
                    (console_write (LogScaled name currentSize targetSize scaleFactor)
                      (scale_step rootMesh scaleFactor (s\<lparr>nodes := ns\<rparr>)))))"
    unfolding AssetTestScene_loadAsset_success [where ImportMeshAsync = ImportMeshAsync and s = s, OF imp ne] Let_def bb' root [symmetric] ft cs
    by (rule snd_conv)
  have G: "snd (ArcheryGameScene_loadAsset ImportMeshAsync folderPath fileName pos rot name targetSize s) =
       console_write (LogLoaded name pos)
                (setLoadedAssets (\<lambda>prev. prev @ [name])
                  (ArcheryGameScene_position_step rootMesh pos rot
                      (scale_step rootMesh scaleFactor (s\<lparr>nodes := ns\<rparr>))))"
    unfolding ArcheryGameScene_loadAsset_success [where ImportMeshAsync = ImportMeshAsync and s = s, OF imp ne] Let_def bb' root [symmetric] fg
    by (rule snd_conv)
  have "scaling (nodes (snd (AssetTestScene_loadAsset ImportMeshAsync folderPath fileName
                                pos name targetSize s)) target) =
           Some (Vector3 scaleFactor scaleFactor scaleFactor)"
    unfolding T t
    by (simp add: nodes_console_write nodes_setLoadedAssets
        scaling_AssetTestScene_position_step scaling_scale_step)
  moreover have "scaling (nodes (snd (ArcheryGameScene_loadAsset ImportMeshAsync folderPath fileName
                                pos rot name targetSize s)) target) =
           Some (Vector3 scaleFactor scaleFactor scaleFactor)"
    unfolding G t
    by (simp add: nodes_console_write nodes_setLoadedAssets
        scaling_ArcheryGameScene_position_step scaling_scale_step)
  ultimately show ?thesis by simp
qed

lemma union_box_ab:
  "union_box [mesh_a, mesh_b] =
     \<lparr>bb_min = Vector3 (-1) (-3) (-1), bb_max = Vector3 1 2 1, bb_size = Vector3 2 5 2\<rparr>"
  by (simp add: union_box_def mesh_a_def mesh_b_def)

theorem scale_factor_uniform_witness:
  "scaling (nodes (snd (AssetTestScene_loadAsset import_ab ''target'' ''scene.gltf''
                          (Vector3 4 1 0) ''Target'' (5 / 2) (initial_state empty_scene))) 0) =
     Some (Vector3 (Finite (1 / 2)) (Finite (1 / 2)) (Finite (1 / 2))) \<and>
   scaling (nodes (snd (ArcheryGameScene_loadAsset import_ab ''target'' ''scene.gltf''
                          (Vector3 4 1 0) (Vector3 0 0 0) ''Target'' (5 / 2)
                          (initial_state empty_scene))) 0) =
     Some (Vector3 (Finite (1 / 2)) (Finite (1 / 2)) (Finite (1 / 2)))"
proof -
  let ?ns = "empty_scene(0 := mesh_a, 1 := mesh_b)"
  have imp: "import_ab (''/assets/'' @ ''target'' @ ''/'') ''scene.gltf''
               (nodes (initial_state empty_scene)) = (Resolved [0, 1], ?ns)"
    by (simp add: import_ab_def initial_state_def)
  have m: "[0, 1] = filter (\<lambda>m. instanceofMesh (?ns m)) [0, 1]"
    by (simp add: mesh_a_def mesh_b_def)
  have ne: "[0, 1::nat] \<noteq> []" by simp
  have bb: "\<lparr>bb_min = Vector3 (-1) (-3) (-1), bb_max = Vector3 1 2 1, bb_size = Vector3 2 5 2\<rparr> =
            union_box (map ?ns [0, 1])"
    by (simp add: union_box_ab)
  have sz: "(5::real) = max (max \<bar>vx (bb_size \<lparr>bb_min = Vector3 (-1) (-3) (-1), bb_max = Vector3 1 2 1, bb_size = Vector3 2 5 (2::real)\<rparr>)\<bar>
                                 \<bar>vy (bb_size \<lparr>bb_min = Vector3 (-1) (-3) (-1), bb_max = Vector3 1 2 1, bb_size = Vector3 2 5 (2::real)\<rparr>)\<bar>)
                            \<bar>vz (bb_size \<lparr>bb_min = Vector3 (-1) (-3) (-1), bb_max = Vector3 1 2 1, bb_size = Vector3 2 5 (2::real)\<rparr>)\<bar>"
    by simp
  have nz: "(5::real) \<noteq> 0" by simp
  have r: "(0::nat) = find_rootMesh ?ns [0, 1]"
    by (simp add: find_rootMesh_def mesh_a_def)
  have tg: "(0::nat) = (case parent (?ns 0) of None \<Rightarrow> 0
                        | Some p \<Rightarrow> if scaling (?ns p) \<noteq> None then p else 0)"
    by (simp add: mesh_a_def)
  have f: "Finite (1 / 2) = Finite ((5 / 2) / 5)" by simp
  show ?thesis
    by (rule scale_factor_uniform [where ImportMeshAsync = import_ab and s = "initial_state empty_scene",
          OF imp m ne bb sz nz r tg f])
qed

section \<open>The two scene files\<close>

text \<open>
  Claim C9. \<open>getBoundingBox\<close> of \<open>AssetTestScene.tsx\<close> and of
  \<open>ArcheryGameScene.tsx\<close> return the same result on every list of meshes; the two
  \<open>loadAsset\<close> functions compute the same \<open>currentSize\<close> and the same
  \<open>scaleFactor\<close> from the same bounding box and target size; and on the same import
  and the same state they leave the same scaling on every node.
\<close>

theorem scene_files_agree:
  "AssetTestScene_getBoundingBox meshes = ArcheryGameScene_getBoundingBox meshes \<and>
   AssetTestScene_currentSize bb = ArcheryGameScene_currentSize bb \<and>
   AssetTestScene_scaleFactor targetSize bb = ArcheryGameScene_scaleFactor targetSize bb \<and>
   scaling (nodes (snd (AssetTestScene_loadAsset ImportMeshAsync folderPath fileName
                          pos name targetSize s)) n) =
   scaling (nodes (snd (ArcheryGameScene_loadAsset ImportMeshAsync folderPath fileName
                          pos rot name targetSize s)) n)"
proof -
  have box: "AssetTestScene_getBoundingBox meshes = ArcheryGameScene_getBoundingBox meshes"
    by (simp add: AssetTestScene_getBoundingBox_def ArcheryGameScene_getBoundingBox_def)
  have cur: "AssetTestScene_currentSize b = ArcheryGameScene_currentSize b" for b
    by (simp add: AssetTestScene_currentSize_def ArcheryGameScene_currentSize_def)
  have fac: "AssetTestScene_scaleFactor t b = ArcheryGameScene_scaleFactor t b" for t b
    by (simp add: AssetTestScene_scaleFactor_def ArcheryGameScene_scaleFactor_def cur)
  obtain result ns where
    imp: "ImportMeshAsync (''/assets/'' @ folderPath @ ''/'') fileName (nodes s) = (result, ns)"
    by (cases "ImportMeshAsync (''/assets/'' @ folderPath @ ''/'') fileName (nodes s)")
  have "scaling (nodes (snd (AssetTestScene_loadAsset ImportMeshAsync folderPath fileName
                          pos name targetSize s)) n) =
        scaling (nodes (snd (ArcheryGameScene_loadAsset ImportMeshAsync folderPath fileName
                          pos rot name targetSize s)) n)"
  proof (cases result)
    case (Rejected err)
    with imp show ?thesis
      by (simp add: AssetTestScene_loadAsset_rejected [where ImportMeshAsync = ImportMeshAsync and s = s]
          ArcheryGameScene_loadAsset_rejected [where ImportMeshAsync = ImportMeshAsync and s = s]
          nodes_console_write split: thrown.split)
  next
    case (Resolved result_meshes)
    show ?thesis
    proof (cases "filter (\<lambda>m. instanceofMesh (ns m)) result_meshes = []")
      case True
      with imp Resolved show ?thesis
        by (simp add: AssetTestScene_loadAsset_no_geometry [where ImportMeshAsync = ImportMeshAsync and s = s]
            ArcheryGameScene_loadAsset_no_geometry [where ImportMeshAsync = ImportMeshAsync and s = s]
            nodes_console_write)
    next
      case False
      with imp Resolved show ?thesis
        by (simp add: AssetTestScene_loadAsset_success [where ImportMeshAsync = ImportMeshAsync and s = s]
            ArcheryGameScene_loadAsset_success [where ImportMeshAsync = ImportMeshAsync and s = s]
            Let_def nodes_console_write nodes_setLoadedAssets
            scaling_AssetTestScene_position_step scaling_ArcheryGameScene_position_step
            scaling_scale_step fac)
    qed
  qed
  with box cur fac show ?thesis by simp
qed

section \<open>The root node\<close>

text \<open>
  Claim C3. When an import resolves with at least one instance of \<open>Mesh\<close>, the root
  mesh of \<open>loadAsset\<close> is the first node of \<open>result.meshes\<close> that has no parent, and
  the first node of \<open>result.meshes\<close> if every node has a parent. It is the node that
  \<open>loadAsset\<close> of \<open>ArcheryGameScene.tsx\<close> returns, and in both files the node whose
  position is written (to the requested position, or to the origin when its parent takes
  the position).
\<close>

theorem root_is_first_parentless_else_first:
  assumes imp: "ImportMeshAsync (''/assets/'' @ folderPath @ ''/'') fileName (nodes s) =
                  (Resolved result_meshes, ns)"
    and usable: "filter (\<lambda>m. instanceofMesh (ns m)) result_meshes \<noteq> []"
  shows "\<exists>rootMesh.
           ((\<exists>i<length result_meshes.
               parent (ns (result_meshes ! i)) = None \<and>
               (\<forall>j<i. parent (ns (result_meshes ! j)) \<noteq> None) \<and>
               rootMesh = result_meshes ! i) \<or>
            ((\<forall>m\<in>set result_meshes. parent (ns m) \<noteq> None) \<and>
             rootMesh = result_meshes ! 0)) \<and>
           fst (ArcheryGameScene_loadAsset ImportMeshAsync folderPath fileName
                  pos rot name targetSize s) = NodeRef rootMesh \<and>
           (position (nodes (snd (ArcheryGameScene_loadAsset ImportMeshAsync folderPath fileName
                                    pos rot name targetSize s)) rootMesh) = Some pos \<or>
            position (nodes (snd (ArcheryGameScene_loadAsset ImportMeshAsync folderPath fileName
                                    pos rot name targetSize s)) rootMesh) = Some Zero) \<and>
           (position (nodes (snd (AssetTestScene_loadAsset ImportMeshAsync folderPath fileName
                                    pos name targetSize s)) rootMesh) = Some pos \<or>
            position (nodes (snd (AssetTestScene_loadAsset ImportMeshAsync folderPath fileName
                                    pos name targetSize s)) rootMesh) = Some Zero)"
proof -
  have ne: "result_meshes \<noteq> []" using usable by auto
  note T = AssetTestScene_loadAsset_success
             [where ImportMeshAsync = ImportMeshAsync and s = s, OF imp usable]
  note G = ArcheryGameScene_loadAsset_success
             [where ImportMeshAsync = ImportMeshAsync and s = s, OF imp usable]
  have g1: "fst (ArcheryGameScene_loadAsset ImportMeshAsync folderPath fileName
                  pos rot name targetSize s) = NodeRef (find_rootMesh ns result_meshes)"
    by (simp add: G Let_def)
  have g2: "position (nodes (snd (ArcheryGameScene_loadAsset ImportMeshAsync folderPath fileName
                pos rot name targetSize s)) (find_rootMesh ns result_meshes)) = Some pos \<or>
            position (nodes (snd (ArcheryGameScene_loadAsset ImportMeshAsync folderPath fileName
                pos rot name targetSize s)) (find_rootMesh ns result_meshes)) = Some Zero"
    unfolding G Let_def snd_conv nodes_console_write nodes_setLoadedAssets
    by (rule position_ArcheryGameScene_position_step_root)
  have t2: "position (nodes (snd (AssetTestScene_loadAsset ImportMeshAsync folderPath fileName
                pos name targetSize s)) (find_rootMesh ns result_meshes)) = Some pos \<or>
            position (nodes (snd (AssetTestScene_loadAsset ImportMeshAsync folderPath fileName
                pos name targetSize s)) (find_rootMesh ns result_meshes)) = Some Zero"
    unfolding T Let_def snd_conv nodes_console_write nodes_setLoadedAssets
    by (rule position_AssetTestScene_position_step_root)
  from find_rootMesh_first [OF ne, of ns] g1 g2 t2 show ?thesis
    by (intro exI [of _ "find_rootMesh ns result_meshes"]) simp
qed

theorem root_is_first_parentless_else_first_witness:
  "parent ((empty_scene(0 := mesh_a, 1 := mesh_b)) 0) = None \<and>
   fst (ArcheryGameScene_loadAsset import_ab ''target'' ''scene.gltf''
          (Vector3 0 (3 / 2) 12) (Vector3 0 (pi / 2) 0) ''Target'' 4
          (initial_state empty_scene)) = NodeRef 0"
proof -
  let ?ns = "empty_scene(0 := mesh_a, 1 := mesh_b)"
  have imp: "import_ab (''/assets/'' @ ''target'' @ ''/'') ''scene.gltf''
               (nodes (initial_state empty_scene)) = (Resolved [0, 1], ?ns)"
    by (simp add: import_ab_def initial_state_def)
  have usable: "filter (\<lambda>m. instanceofMesh (?ns m)) [0, 1] \<noteq> []"
    by (simp add: mesh_a_def)
  have pa: "parent (?ns 0) = None" and pb: "parent (?ns (Suc 0)) \<noteq> None"
    by (simp_all add: mesh_a_def mesh_b_def)
  from root_is_first_parentless_else_first
         [where ImportMeshAsync = import_ab and s = "initial_state empty_scene"
            and pos = "Vector3 0 (3 / 2) 12" and rot = "Vector3 0 (pi / 2) 0"
            and name = "''Target''" and targetSize = 4, OF imp usable]
  obtain rootMesh where
    first: "(\<exists>i<length [0, 1::nat]. parent (?ns ([0, 1] ! i)) = None \<and>
               (\<forall>j<i. parent (?ns ([0, 1] ! j)) \<noteq> None) \<and> rootMesh = [0, 1] ! i) \<or>
            ((\<forall>m\<in>set [0, 1]. parent (?ns m) \<noteq> None) \<and> rootMesh = [0, 1] ! 0)"
    and ret: "fst (ArcheryGameScene_loadAsset import_ab ''target'' ''scene.gltf''
                (Vector3 0 (3 / 2) 12) (Vector3 0 (pi / 2) 0) ''Target'' 4
                (initial_state empty_scene)) = NodeRef rootMesh"
    by blast
  from first pa pb have "rootMesh = 0"
    by (auto simp: less_Suc_eq numeral_2_eq_2)
  with ret pa show ?thesis by simp
qed

section \<open>Where the transform is written\<close>

lemma union_box_single:
  "union_box [m] =
     \<lparr>bb_min = minimumWorld m, bb_max = maximumWorld m,
      bb_size = Vector3 (vx (maximumWorld m) - vx (minimumWorld m))
                        (vy (maximumWorld m) - vy (minimumWorld m))
                        (vz (maximumWorld m) - vz (minimumWorld m))\<rparr>"
  by (simp add: union_box_def Let_def)

lemma held_facts:
  "import_held (''/assets/'' @ ''recurve_bow'' @ ''/'') ''scene.gltf''
     (nodes (initial_state empty_scene)) =
     (Resolved [4], empty_scene(4 := mesh_held, 2 := camera_node))"
  "filter (\<lambda>m. instanceofMesh ((empty_scene(4 := mesh_held, 2 := camera_node)) m)) [4] = [4]"
  "find_rootMesh (empty_scene(4 := mesh_held, 2 := camera_node)) [4] = 4"
  "scale_target (empty_scene(4 := mesh_held, 2 := camera_node)) 4 = 4"
  "position_target (empty_scene(4 := mesh_held, 2 := camera_node)) 4 = 2"
  "rotation_target (empty_scene(4 := mesh_held, 2 := camera_node)) 4 = Some 2"
  "AssetTestScene_scaleFactor 4 (union_box [mesh_held]) = Finite 2"
  "ArcheryGameScene_scaleFactor 4 (union_box [mesh_held]) = Finite 2"
  by (simp_all add: import_held_def initial_state_def mesh_held_def camera_node_def
      find_rootMesh_def scale_target_def position_target_def rotation_target_def
      union_box_single AssetTestScene_scaleFactor_def AssetTestScene_currentSize_def
      ArcheryGameScene_scaleFactor_def ArcheryGameScene_currentSize_def js_div_def)

lemma wrapped_facts:
  "import_wrapped (''/assets/'' @ ''target'' @ ''/'') ''scene.gltf''
     (nodes (initial_state empty_scene)) =
     (Resolved [4], empty_scene(4 := mesh_c, 3 := wrapper))"
  "[4] = filter (\<lambda>m. instanceofMesh ((empty_scene(4 := mesh_c, 3 := wrapper)) m)) [4]"
  "4 = find_rootMesh (empty_scene(4 := mesh_c, 3 := wrapper)) [4]"
  "scale_target (empty_scene(4 := mesh_c, 3 := wrapper)) 4 = 3"
  "position_target (empty_scene(4 := mesh_c, 3 := wrapper)) 4 = 3"
  "rotation_target (empty_scene(4 := mesh_c, 3 := wrapper)) 4 = Some 3"
  "Finite 2 = ArcheryGameScene_scaleFactor 4
                (union_box (map (empty_scene(4 := mesh_c, 3 := wrapper)) [4]))"
  by (simp_all add: import_wrapped_def initial_state_def mesh_c_def wrapper_def
      find_rootMesh_def scale_target_def position_target_def rotation_target_def
      union_box_single ArcheryGameScene_scaleFactor_def ArcheryGameScene_currentSize_def
      js_div_def)

text \<open>
  A mesh held by a camera: the camera has a position and no scaling. Both files write
  the scale to the mesh and the position to the camera, so the position is not applied
  to the node chosen for the scale.
\<close>

theorem position_target_differs_from_scale_target:
  "scaling (nodes held_after_ArcheryGameScene 4) =
     Some (Vector3 (Finite 2) (Finite 2) (Finite 2)) \<and>
   scaling (nodes held_after_ArcheryGameScene 2) = None \<and>
   position (nodes held_after_ArcheryGameScene 2) = Some (Vector3 4 1 0) \<and>
   position (nodes held_after_ArcheryGameScene 4) = Some (Vector3 0 0 0) \<and>
   rotation (nodes held_after_ArcheryGameScene 2) = Some (Vector3 0 1 0) \<and>
   rotation (nodes held_after_ArcheryGameScene 4) = Some (Vector3 0 0 0) \<and>
   scaling (nodes held_after_AssetTestScene 4) =
     Some (Vector3 (Finite 2) (Finite 2) (Finite 2)) \<and>
   scaling (nodes held_after_AssetTestScene 2) = None \<and>
   position (nodes held_after_AssetTestScene 2) = Some (Vector3 4 1 0) \<and>
   position (nodes held_after_AssetTestScene 4) = Some (Vector3 0 0 0)"
proof -
  let ?ns = "empty_scene(4 := mesh_held, 2 := camera_node)"
  have usable: "filter (\<lambda>m. instanceofMesh (?ns m)) [4] \<noteq> []"
    by (simp add: mesh_held_def)
  have acyclic: "parent (?ns (find_rootMesh ?ns [4])) \<noteq> Some (find_rootMesh ?ns [4])"
    unfolding held_facts(3) by (simp add: mesh_held_def)
  note G = ArcheryGameScene_loadAsset_store
             [where ImportMeshAsync = import_held and s = "initial_state empty_scene",
              OF held_facts(1) usable acyclic]
  note T = AssetTestScene_loadAsset_store
             [where ImportMeshAsync = import_held and s = "initial_state empty_scene",
              OF held_facts(1) usable acyclic]
  have g: "nodes held_after_ArcheryGameScene n =
             (?ns n)\<lparr>scaling := if n = 4 then Some (Vector3 (Finite 2) (Finite 2) (Finite 2))
                                  else scaling (?ns n),
                       position := if n = 2 then Some (Vector3 4 1 0)
                                   else if n = 4 then Some Zero else position (?ns n),
                       rotation := if n = 2 then Some (Vector3 0 1 0) else rotation (?ns n)\<rparr>" for n
    unfolding held_after_ArcheryGameScene_def G held_facts
    by (simp add: held_facts(8) Let_def)
  have t: "nodes held_after_AssetTestScene n =
             (?ns n)\<lparr>scaling := if n = 4 then Some (Vector3 (Finite 2) (Finite 2) (Finite 2))
                                  else scaling (?ns n),
                       position := if n = 2 then Some (Vector3 4 1 0)
                                   else if n = 4 then Some Zero else position (?ns n)\<rparr>" for n
    unfolding held_after_AssetTestScene_def T held_facts
    by (simp add: held_facts(7) Let_def)
  show ?thesis
    by (simp add: g t Zero_def mesh_held_def camera_node_def)
qed

text \<open>
  Claim C4, as amended. For every successful placement whose root is not its own parent:
  the scale \<open>(f, f, f)\<close> is written to the root's parent if the parent has a scaling
  property, to the root otherwise; the position is written to the root's parent if the
  parent has a position property, to the root otherwise, and where the parent takes it
  the root's position is reset to the origin; in the game scene the rotation is written
  to the root where the root takes the position, and to the parent that takes the
  position only if it has a rotation property. The two capability tests are separate, so
  scale and position land on the same node exactly when the parent has both properties
  or neither. No other field of any node changes.
\<close>

theorem transform_targets_by_capability:
  assumes imp: "ImportMeshAsync (''/assets/'' @ folderPath @ ''/'') fileName (nodes s) =
                  (Resolved result_meshes, ns)"
    and meshes: "meshes = filter (\<lambda>m. instanceofMesh (ns m)) result_meshes" "meshes \<noteq> []"
    and root: "rootMesh = find_rootMesh ns result_meshes"
    and acyclic: "parent (ns rootMesh) \<noteq> Some rootMesh"
    and f: "f = ArcheryGameScene_scaleFactor targetSize (union_box (map ns meshes))"
  shows "nodes (snd (AssetTestScene_loadAsset ImportMeshAsync folderPath fileName
                       pos name targetSize s)) n =
           (ns n)\<lparr>scaling :=
                     if n = scale_target ns rootMesh then Some (Vector3 f f f)
                     else scaling (ns n),
                   position :=
                     if n = position_target ns rootMesh then Some pos
                     else if n = rootMesh then Some Zero
                     else position (ns n)\<rparr> \<and>
         nodes (snd (ArcheryGameScene_loadAsset ImportMeshAsync folderPath fileName
                       pos rot name targetSize s)) n =
           (ns n)\<lparr>scaling :=
                     if n = scale_target ns rootMesh then Some (Vector3 f f f)
                     else scaling (ns n),
                   position :=
                     if n = position_target ns rootMesh then Some pos
                     else if n = rootMesh then Some Zero
                     else position (ns n),
                   rotation :=
                     if Some n = rotation_target ns rootMesh then Some rot
                     else rotation (ns n)\<rparr> \<and>
         (parent (ns rootMesh) = None \<longrightarrow>
            scale_target ns rootMesh = rootMesh \<and> position_target ns rootMesh = rootMesh \<and>
            rotation_target ns rootMesh = Some rootMesh) \<and>
         (\<forall>p. parent (ns rootMesh) = Some p \<longrightarrow>
            scale_target ns rootMesh = (if scaling (ns p) \<noteq> None then p else rootMesh) \<and>
            position_target ns rootMesh = (if position (ns p) \<noteq> None then p else rootMesh) \<and>
            rotation_target ns rootMesh =
              (if position (ns p) = None then Some rootMesh
               else if rotation (ns p) \<noteq> None then Some p else None))"
proof -
  have usable: "filter (\<lambda>m. instanceofMesh (ns m)) result_meshes \<noteq> []"
    using meshes by simp
  have ac: "parent (ns (find_rootMesh ns result_meshes)) \<noteq> Some (find_rootMesh ns result_meshes)"
    using acyclic root by simp
  have ft: "AssetTestScene_scaleFactor targetSize
              (union_box (map ns (filter (\<lambda>m. instanceofMesh (ns m)) result_meshes))) = f"
    unfolding f meshes(1)
    by (simp add: AssetTestScene_scaleFactor_def ArcheryGameScene_scaleFactor_def
        AssetTestScene_currentSize_def ArcheryGameScene_currentSize_def)
  have fg: "ArcheryGameScene_scaleFactor targetSize
              (union_box (map ns (filter (\<lambda>m. instanceofMesh (ns m)) result_meshes))) = f"
    unfolding f meshes(1) by (rule refl)
  have t: "nodes (snd (AssetTestScene_loadAsset ImportMeshAsync folderPath fileName
                       pos name targetSize s)) n =
           (ns n)\<lparr>scaling :=
                     if n = scale_target ns rootMesh then Some (Vector3 f f f)
                     else scaling (ns n),
                   position :=
                     if n = position_target ns rootMesh then Some pos
                     else if n = rootMesh then Some Zero
                     else position (ns n)\<rparr>"
    unfolding AssetTestScene_loadAsset_store
                [where ImportMeshAsync = ImportMeshAsync and s = s, OF imp usable ac]
      ft root Let_def
    by (rule refl)
  have g: "nodes (snd (ArcheryGameScene_loadAsset ImportMeshAsync folderPath fileName
                       pos rot name targetSize s)) n =
           (ns n)\<lparr>scaling :=
                     if n = scale_target ns rootMesh then Some (Vector3 f f f)
                     else scaling (ns n),
                   position :=
                     if n = position_target ns rootMesh then Some pos
                     else if n = rootMesh then Some Zero
                     else position (ns n),
                   rotation :=
                     if Some n = rotation_target ns rootMesh then Some rot
                     else rotation (ns n)\<rparr>"
    unfolding ArcheryGameScene_loadAsset_store
                [where ImportMeshAsync = ImportMeshAsync and s = s, OF imp usable ac]
      fg root Let_def
    by (rule refl)
  have none: "parent (ns rootMesh) = None \<longrightarrow>
            scale_target ns rootMesh = rootMesh \<and> position_target ns rootMesh = rootMesh \<and>
            rotation_target ns rootMesh = Some rootMesh"
    by (simp add: scale_target_def position_target_def rotation_target_def)
  have some: "\<forall>p. parent (ns rootMesh) = Some p \<longrightarrow>
            scale_target ns rootMesh = (if scaling (ns p) \<noteq> None then p else rootMesh) \<and>
            position_target ns rootMesh = (if position (ns p) \<noteq> None then p else rootMesh) \<and>
            rotation_target ns rootMesh =
              (if position (ns p) = None then Some rootMesh
               else if rotation (ns p) \<noteq> None then Some p else None)"
    by (simp add: scale_target_def position_target_def rotation_target_def)
  from t g none some show ?thesis by blast
qed

theorem transform_targets_by_capability_witness:
  "nodes wrapped_after_ArcheryGameScene 3 =
     wrapper\<lparr>scaling := Some (Vector3 (Finite 2) (Finite 2) (Finite 2)),
             position := Some (Vector3 4 1 0), rotation := Some (Vector3 0 1 0)\<rparr> \<and>
   nodes wrapped_after_ArcheryGameScene 4 = mesh_c\<lparr>position := Some (Vector3 0 0 0)\<rparr> \<and>
   nodes wrapped_after_AssetTestScene 3 =
     wrapper\<lparr>scaling := Some (Vector3 (Finite 2) (Finite 2) (Finite 2)),
             position := Some (Vector3 4 1 0)\<rparr> \<and>
   nodes wrapped_after_AssetTestScene 4 = mesh_c\<lparr>position := Some (Vector3 0 0 0)\<rparr>"
proof -
  let ?ns = "empty_scene(4 := mesh_c, 3 := wrapper)"
  have ne: "[4::nat] \<noteq> []" by simp
  have acyclic: "parent (?ns 4) \<noteq> Some 4" by (simp add: mesh_c_def)
  note inst = transform_targets_by_capability
               [where ImportMeshAsync = import_wrapped and s = "initial_state empty_scene"
                  and folderPath = "''target''" and fileName = "''scene.gltf''"
                  and result_meshes = "[4]" and ns = "?ns" and meshes = "[4]"
                  and rootMesh = 4 and f = "Finite 2" and targetSize = 4
                  and pos = "Vector3 4 1 0" and rot = "Vector3 0 1 0" and name = "''Target''",
                OF wrapped_facts(1) wrapped_facts(2) ne wrapped_facts(3) acyclic wrapped_facts(7)]
  have g3: "nodes wrapped_after_ArcheryGameScene 3 =
     wrapper\<lparr>scaling := Some (Vector3 (Finite 2) (Finite 2) (Finite 2)),
             position := Some (Vector3 4 1 0), rotation := Some (Vector3 0 1 0)\<rparr>"
    unfolding wrapped_after_ArcheryGameScene_def
    using inst [of 3] unfolding wrapped_facts(4-6) by simp
  have g4: "nodes wrapped_after_ArcheryGameScene 4 = mesh_c\<lparr>position := Some (Vector3 0 0 0)\<rparr>"
    unfolding wrapped_after_ArcheryGameScene_def
    using inst [of 4] unfolding wrapped_facts(4-6) by (simp add: Zero_def mesh_c_def)
  have t3: "nodes wrapped_after_AssetTestScene 3 =
     wrapper\<lparr>scaling := Some (Vector3 (Finite 2) (Finite 2) (Finite 2)),
             position := Some (Vector3 4 1 0)\<rparr>"
    unfolding wrapped_after_AssetTestScene_def
    using inst [of 3] unfolding wrapped_facts(4-6) by simp
  have t4: "nodes wrapped_after_AssetTestScene 4 = mesh_c\<lparr>position := Some (Vector3 0 0 0)\<rparr>"
    unfolding wrapped_after_AssetTestScene_def
    using inst [of 4] unfolding wrapped_facts(4-6) by (simp add: Zero_def mesh_c_def)
  from g3 g4 t3 t4 show ?thesis by simp
qed

section \<open>What a task leaves of the component state\<close>

lemma component_set_scaling:
  "loadedAssets (set_scaling n v s) = loadedAssets s"
  "loading (set_scaling n v s) = loading s"
  "console (set_scaling n v s) = console s"
  by (simp_all add: set_scaling_def)

lemma component_set_position:
  "loadedAssets (set_position n v s) = loadedAssets s"
  "loading (set_position n v s) = loading s"
  "console (set_position n v s) = console s"
  by (simp_all add: set_position_def)

lemma component_set_rotation:
  "loadedAssets (set_rotation n v s) = loadedAssets s"
  "loading (set_rotation n v s) = loading s"
  "console (set_rotation n v s) = console s"
  by (simp_all add: set_rotation_def)

lemma component_console_write:
  "loadedAssets (console_write e s) = loadedAssets s"
  "loading (console_write e s) = loading s"
  "console (console_write e s) = console s @ [e]"
  by (simp_all add: console_write_def)

lemma component_setLoadedAssets:
  "loadedAssets (setLoadedAssets f s) = f (loadedAssets s)"
  "loading (setLoadedAssets f s) = loading s"
  "console (setLoadedAssets f s) = console s"
  by (simp_all add: setLoadedAssets_def)

lemma component_setLoading:
  "loadedAssets (setLoading b s) = loadedAssets s"
  "loading (setLoading b s) = b"
  "console (setLoading b s) = console s"
  "nodes (setLoading b s) = nodes s"
  by (simp_all add: setLoading_def)

lemma component_scale_step:
  "loadedAssets (scale_step r f s) = loadedAssets s"
  "loading (scale_step r f s) = loading s"
  "console (scale_step r f s) = console s"
  by (simp_all add: scale_step_target component_set_scaling)

lemma component_AssetTestScene_position_step:
  "loadedAssets (AssetTestScene_position_step r pos s) = loadedAssets s"
  "loading (AssetTestScene_position_step r pos s) = loading s"
  "console (AssetTestScene_position_step r pos s) = console s"
  by (simp_all add: AssetTestScene_position_step_cases component_set_position split: option.split)

lemma component_ArcheryGameScene_position_step:
  "loadedAssets (ArcheryGameScene_position_step r pos rot s) = loadedAssets s"
  "loading (ArcheryGameScene_position_step r pos rot s) = loading s"
  "console (ArcheryGameScene_position_step r pos rot s) = console s"
  by (simp_all add: ArcheryGameScene_position_step_cases component_set_position
      component_set_rotation split: option.split)

lemmas component_simps =
  component_set_scaling component_set_position component_set_rotation component_console_write
  component_setLoadedAssets component_setLoading component_scale_step
  component_AssetTestScene_position_step component_ArcheryGameScene_position_step

lemma AssetTestScene_loadAsset_component:
  "loading (snd (AssetTestScene_loadAsset ImportMeshAsync folderPath fileName pos name targetSize s)) =
     loading s"
  "loadedAssets (snd (AssetTestScene_loadAsset ImportMeshAsync folderPath fileName pos name targetSize s)) =
     loadedAssets s @ (if import_usable ImportMeshAsync folderPath fileName (nodes s) then [name] else [])"
  "fst (AssetTestScene_loadAsset ImportMeshAsync folderPath fileName pos name targetSize s) = Undefined"
  "\<exists>es. console (snd (AssetTestScene_loadAsset ImportMeshAsync folderPath fileName pos name targetSize s)) =
          console s @ es \<and>
        (\<forall>err. fst (ImportMeshAsync (''/assets/'' @ folderPath @ ''/'') fileName (nodes s)) = Rejected err
           \<longrightarrow> ErrorLoading name err \<in> set es)"
proof -
  obtain result ns where
    imp: "ImportMeshAsync (''/assets/'' @ folderPath @ ''/'') fileName (nodes s) = (result, ns)"
    by (cases "ImportMeshAsync (''/assets/'' @ folderPath @ ''/'') fileName (nodes s)")
  let ?run = "AssetTestScene_loadAsset ImportMeshAsync folderPath fileName pos name targetSize s"
  have "loading (snd ?run) = loading s \<and>
        loadedAssets (snd ?run) =
          loadedAssets s @ (if import_usable ImportMeshAsync folderPath fileName (nodes s) then [name] else []) \<and>
        fst ?run = Undefined \<and>
        (\<exists>es. console (snd ?run) = console s @ es \<and>
          (\<forall>err. fst (ImportMeshAsync (''/assets/'' @ folderPath @ ''/'') fileName (nodes s)) = Rejected err
             \<longrightarrow> ErrorLoading name err \<in> set es))"
  proof (cases result)
    case (Rejected err)
    note run = AssetTestScene_loadAsset_rejected
                 [where ImportMeshAsync = ImportMeshAsync and s = s and folderPath = folderPath
                    and fileName = fileName and err = err and ns = ns, OF imp [unfolded Rejected]]
    show ?thesis
      unfolding run using imp
      by (cases err) (simp_all add: component_simps import_usable_def Rejected)
  next
    case (Resolved result_meshes)
    show ?thesis
    proof (cases "filter (\<lambda>m. instanceofMesh (ns m)) result_meshes = []")
      case True
      note run = AssetTestScene_loadAsset_no_geometry
                 [where ImportMeshAsync = ImportMeshAsync and s = s and folderPath = folderPath
                    and fileName = fileName and result_meshes = result_meshes and ns = ns,
                  OF imp [unfolded Resolved] True]
      show ?thesis
        unfolding run using imp
        by (simp add: component_simps import_usable_def Resolved True)
    next
      case False
      note run = AssetTestScene_loadAsset_success
                 [where ImportMeshAsync = ImportMeshAsync and s = s and folderPath = folderPath
                    and fileName = fileName and result_meshes = result_meshes and ns = ns,
                  OF imp [unfolded Resolved] False]
      show ?thesis
        unfolding run Let_def using imp
        by (simp add: component_simps import_usable_def Resolved False)
    qed
  qed
  then show
    "loading (snd ?run) = loading s"
    "loadedAssets (snd ?run) =
       loadedAssets s @ (if import_usable ImportMeshAsync folderPath fileName (nodes s) then [name] else [])"
    "fst ?run = Undefined"
    "\<exists>es. console (snd ?run) = console s @ es \<and>
        (\<forall>err. fst (ImportMeshAsync (''/assets/'' @ folderPath @ ''/'') fileName (nodes s)) = Rejected err
           \<longrightarrow> ErrorLoading name err \<in> set es)"
    by blast+
qed

lemma ArcheryGameScene_loadAsset_component:
  "loading (snd (ArcheryGameScene_loadAsset ImportMeshAsync folderPath fileName pos rot name targetSize s)) =
     loading s"
  "loadedAssets (snd (ArcheryGameScene_loadAsset ImportMeshAsync folderPath fileName pos rot name targetSize s)) =
     loadedAssets s @ (if import_usable ImportMeshAsync folderPath fileName (nodes s) then [name] else [])"
  "fst (ArcheryGameScene_loadAsset ImportMeshAsync folderPath fileName pos rot name targetSize s) =
     (if import_usable ImportMeshAsync folderPath fileName (nodes s)
      then NodeRef (find_rootMesh
                      (snd (ImportMeshAsync (''/assets/'' @ folderPath @ ''/'') fileName (nodes s)))
                      (case fst (ImportMeshAsync (''/assets/'' @ folderPath @ ''/'') fileName (nodes s)) of
                         Resolved result_meshes \<Rightarrow> result_meshes | Rejected err \<Rightarrow> []))
      else Null)"
  "\<exists>es. console (snd (ArcheryGameScene_loadAsset ImportMeshAsync folderPath fileName pos rot name targetSize s)) =
          console s @ es \<and>
        (\<forall>err. fst (ImportMeshAsync (''/assets/'' @ folderPath @ ''/'') fileName (nodes s)) = Rejected err
           \<longrightarrow> ErrorLoading name err \<in> set es)"
proof -
  obtain result ns where
    imp: "ImportMeshAsync (''/assets/'' @ folderPath @ ''/'') fileName (nodes s) = (result, ns)"
    by (cases "ImportMeshAsync (''/assets/'' @ folderPath @ ''/'') fileName (nodes s)")
  let ?run = "ArcheryGameScene_loadAsset ImportMeshAsync folderPath fileName pos rot name targetSize s"
  have "loading (snd ?run) = loading s \<and>
        loadedAssets (snd ?run) =
          loadedAssets s @ (if import_usable ImportMeshAsync folderPath fileName (nodes s) then [name] else []) \<and>
        fst ?run =
          (if import_usable ImportMeshAsync folderPath fileName (nodes s)
           then NodeRef (find_rootMesh
                      (snd (ImportMeshAsync (''/assets/'' @ folderPath @ ''/'') fileName (nodes s)))
                      (case fst (ImportMeshAsync (''/assets/'' @ folderPath @ ''/'') fileName (nodes s)) of
                         Resolved result_meshes \<Rightarrow> result_meshes | Rejected err \<Rightarrow> []))
           else Null) \<and>
        (\<exists>es. console (snd ?run) = console s @ es \<and>
          (\<forall>err. fst (ImportMeshAsync (''/assets/'' @ folderPath @ ''/'') fileName (nodes s)) = Rejected err
             \<longrightarrow> ErrorLoading name err \<in> set es))"
  proof (cases result)
    case (Rejected err)
    note run = ArcheryGameScene_loadAsset_rejected
                 [where ImportMeshAsync = ImportMeshAsync and s = s and folderPath = folderPath
                    and fileName = fileName and err = err and ns = ns, OF imp [unfolded Rejected]]
    show ?thesis
      unfolding run using imp
      by (simp add: component_simps import_usable_def Rejected)
  next
    case (Resolved result_meshes)
    show ?thesis
    proof (cases "filter (\<lambda>m. instanceofMesh (ns m)) result_meshes = []")
      case True
      note run = ArcheryGameScene_loadAsset_no_geometry
                 [where ImportMeshAsync = ImportMeshAsync and s = s and folderPath = folderPath
                    and fileName = fileName and result_meshes = result_meshes and ns = ns,
                  OF imp [unfolded Resolved] True]
      show ?thesis
        unfolding run using imp
        by (simp add: component_simps import_usable_def Resolved True)
    next
      case False
      note run = ArcheryGameScene_loadAsset_success
                 [where ImportMeshAsync = ImportMeshAsync and s = s and folderPath = folderPath
                    and fileName = fileName and result_meshes = result_meshes and ns = ns,
                  OF imp [unfolded Resolved] False]
      show ?thesis
        unfolding run Let_def using imp
        by (simp add: component_simps import_usable_def Resolved False)
    qed
  qed
  then show
    "loading (snd ?run) = loading s"
    "loadedAssets (snd ?run) =
       loadedAssets s @ (if import_usable ImportMeshAsync folderPath fileName (nodes s) then [name] else [])"
    "fst ?run =
          (if import_usable ImportMeshAsync folderPath fileName (nodes s)
           then NodeRef (find_rootMesh
                      (snd (ImportMeshAsync (''/assets/'' @ folderPath @ ''/'') fileName (nodes s)))
                      (case fst (ImportMeshAsync (''/assets/'' @ folderPath @ ''/'') fileName (nodes s)) of
                         Resolved result_meshes \<Rightarrow> result_meshes | Rejected err \<Rightarrow> []))
           else Null)"
    "\<exists>es. console (snd ?run) = console s @ es \<and>
        (\<forall>err. fst (ImportMeshAsync (''/assets/'' @ folderPath @ ''/'') fileName (nodes s)) = Rejected err
           \<longrightarrow> ErrorLoading name err \<in> set es)"
    by blast+
qed

text \<open>Tasks that only append to the list and to the console, and keep the flag.\<close>

lemma settle_loadedAssets:
  assumes "\<And>i s. i < length tasks \<Longrightarrow>
             loadedAssets (snd ((tasks ! i) s)) = loadedAssets s @ (if ok i then [names i] else [])"
    and "\<forall>i\<in>set order. i < length tasks"
  shows "loadedAssets (snd (settle tasks order results s)) =
         loadedAssets s @ map names (filter ok order)"
  using assms(2)
proof (induction order arbitrary: results s)
  case Nil
  show ?case by simp
next
  case (Cons i order)
  then have i: "i < length tasks" and rest: "\<forall>i\<in>set order. i < length tasks" by simp_all
  obtain v s' where run: "(tasks ! i) s = (v, s')" by (cases "(tasks ! i) s")
  have "loadedAssets s' = loadedAssets s @ (if ok i then [names i] else [])"
    using assms(1) [OF i, of s] run by simp
  moreover have "loadedAssets (snd (settle tasks order (results(i := v)) s')) =
                 loadedAssets s' @ map names (filter ok order)"
    by (rule Cons.IH) (rule rest)
  ultimately show ?case using i run by simp
qed

lemma settle_console:
  assumes "\<And>i s. i < length tasks \<Longrightarrow>
             \<exists>es. console (snd ((tasks ! i) s)) = console s @ es \<and> (failed i \<longrightarrow> entry i \<in> set es)"
    and "\<forall>i\<in>set order. i < length tasks"
  shows "\<exists>es. console (snd (settle tasks order results s)) = console s @ es \<and>
              (\<forall>i\<in>set order. failed i \<longrightarrow> entry i \<in> set es)"
  using assms(2)
proof (induction order arbitrary: results s)
  case Nil
  show ?case by simp
next
  case (Cons i order)
  then have i: "i < length tasks" and rest: "\<forall>i\<in>set order. i < length tasks" by simp_all
  obtain v s' where run: "(tasks ! i) s = (v, s')" by (cases "(tasks ! i) s")
  from assms(1) [OF i, of s] run obtain es where
    es: "console s' = console s @ es" "failed i \<longrightarrow> entry i \<in> set es" by auto
  from Cons.IH [OF rest, of "results(i := v)" s'] obtain es' where
    es': "console (snd (settle tasks order (results(i := v)) s')) = console s' @ es'"
         "\<forall>i\<in>set order. failed i \<longrightarrow> entry i \<in> set es'" by blast
  have "console (snd (settle tasks (i # order) results s)) = console s @ (es @ es')"
    using i run es(1) es'(1) by simp
  moreover have "\<forall>j\<in>set (i # order). failed j \<longrightarrow> entry j \<in> set (es @ es')"
    using es(2) es'(2) by auto
  ultimately show ?case by blast
qed

lemma component_setParent:
  "loadedAssets (setParent localTransform n p s) = loadedAssets s"
  "loading (setParent localTransform n p s) = loading s"
  "console (setParent localTransform n p s) = console s"
  by (simp_all add: setParent_def split: prod.split)

lemma ArcheryGameScene_then_component:
  "loading (ArcheryGameScene_then localTransform camera results s) = False"
  "loadedAssets (ArcheryGameScene_then localTransform camera results s) = loadedAssets s"
  "\<exists>es. console (ArcheryGameScene_then localTransform camera results s) = console s @ es"
  by (simp_all add: ArcheryGameScene_then_def Let_def component_simps component_setParent
      split: js_value.split)

lemma AssetTestScene_tasks_nth:
  assumes "i < 3"
  shows "\<exists>pos targetSize.
           AssetTestScene_tasks ImportMeshAsync ! i =
           AssetTestScene_loadAsset ImportMeshAsync (fst (AssetTestScene_assets ! i)) ''scene.gltf''
             pos (snd (AssetTestScene_assets ! i)) targetSize"
proof -
  from assms have "i = 0 \<or> i = 1 \<or> i = 2" by auto
  then show ?thesis
    by (elim disjE) (simp_all add: AssetTestScene_tasks_def AssetTestScene_assets_def, blast+)
qed

lemma ArcheryGameScene_tasks_nth:
  assumes "i < 2"
  shows "\<exists>pos rot targetSize.
           ArcheryGameScene_tasks ImportMeshAsync ! i =
           ArcheryGameScene_loadAsset ImportMeshAsync (fst (ArcheryGameScene_assets ! i)) ''scene.gltf''
             pos rot (snd (ArcheryGameScene_assets ! i)) targetSize"
proof -
  from assms have "i = 0 \<or> i = 1" by auto
  then show ?thesis
    by (elim disjE) (simp_all add: ArcheryGameScene_tasks_def ArcheryGameScene_assets_def, blast+)
qed

lemma length_tasks:
  "length (AssetTestScene_tasks ImportMeshAsync) = 3"
  "length (ArcheryGameScene_tasks ImportMeshAsync) = 2"
  by (simp_all add: AssetTestScene_tasks_def ArcheryGameScene_tasks_def)

lemma AssetTestScene_useEffect_settle:
  "AssetTestScene_useEffect ImportMeshAsync order s =
     console_write LogAllAssetsLoaded
       (setLoading False
          (snd (settle (AssetTestScene_tasks ImportMeshAsync) order (\<lambda>i. Undefined) s)))"
  by (simp add: AssetTestScene_useEffect_def Promise_all_def Let_def split: prod.split)

lemma ArcheryGameScene_useEffect_settle:
  "ArcheryGameScene_useEffect ImportMeshAsync localTransform camera order s =
     ArcheryGameScene_then localTransform camera
       (map (fst (settle (ArcheryGameScene_tasks ImportMeshAsync) order (\<lambda>i. Undefined) s)) [0..<2])
       (snd (settle (ArcheryGameScene_tasks ImportMeshAsync) order (\<lambda>i. Undefined) s))"
  by (simp add: ArcheryGameScene_useEffect_def Promise_all_def Let_def length_tasks
      split: prod.split)

lemma AssetTestScene_batch:
  assumes order: "set order = {0..<3}"
    and fate: "\<forall>i<3. \<forall>ns. import_usable ImportMeshAsync (fst (AssetTestScene_assets ! i))
                                  ''scene.gltf'' ns = usable i"
  shows "loading (AssetTestScene_useEffect ImportMeshAsync order s) = False"
    and "loadedAssets (AssetTestScene_useEffect ImportMeshAsync order s) =
           loadedAssets s @ map (\<lambda>i. snd (AssetTestScene_assets ! i)) (filter usable order)"
    and "i < 3 \<Longrightarrow>
         \<forall>ns. fst (ImportMeshAsync (''/assets/'' @ fst (AssetTestScene_assets ! i) @ ''/'')
                     ''scene.gltf'' ns) = Rejected err \<Longrightarrow>
         ErrorLoading (snd (AssetTestScene_assets ! i)) err \<in>
           set (console (AssetTestScene_useEffect ImportMeshAsync order s))"
proof -
  let ?tasks = "AssetTestScene_tasks ImportMeshAsync"
  have valid: "\<forall>i\<in>set order. i < length ?tasks"
    using order by (simp add: length_tasks)
  show "loading (AssetTestScene_useEffect ImportMeshAsync order s) = False"
    by (simp add: AssetTestScene_useEffect_settle component_simps)
  have step: "loadedAssets (snd ((?tasks ! j) s')) =
              loadedAssets s' @ (if usable j then [snd (AssetTestScene_assets ! j)] else [])"
    if "j < length ?tasks" for j s'
  proof -
    from that have j: "j < 3" by (simp add: length_tasks)
    from AssetTestScene_tasks_nth [OF j, of ImportMeshAsync] obtain pos targetSize where
      "?tasks ! j = AssetTestScene_loadAsset ImportMeshAsync (fst (AssetTestScene_assets ! j))
                      ''scene.gltf'' pos (snd (AssetTestScene_assets ! j)) targetSize"
      by blast
    then show ?thesis
      using fate j by (simp add: AssetTestScene_loadAsset_component(2))
  qed
  show "loadedAssets (AssetTestScene_useEffect ImportMeshAsync order s) =
           loadedAssets s @ map (\<lambda>i. snd (AssetTestScene_assets ! i)) (filter usable order)"
    unfolding AssetTestScene_useEffect_settle component_simps
    by (rule settle_loadedAssets [where ok = usable, OF step valid])
  show "ErrorLoading (snd (AssetTestScene_assets ! i)) err \<in>
           set (console (AssetTestScene_useEffect ImportMeshAsync order s))"
    if i: "i < 3"
      and rej: "\<forall>ns. fst (ImportMeshAsync (''/assets/'' @ fst (AssetTestScene_assets ! i) @ ''/'')
                     ''scene.gltf'' ns) = Rejected err"
  proof -
    have cstep: "\<exists>es. console (snd ((?tasks ! j) s')) = console s' @ es \<and>
                   (j = i \<longrightarrow> ErrorLoading (snd (AssetTestScene_assets ! i)) err \<in> set es)"
      if "j < length ?tasks" for j s'
    proof -
      from that have j: "j < 3" by (simp add: length_tasks)
      from AssetTestScene_tasks_nth [OF j, of ImportMeshAsync] obtain pos targetSize where
        eq: "?tasks ! j = AssetTestScene_loadAsset ImportMeshAsync (fst (AssetTestScene_assets ! j))
                        ''scene.gltf'' pos (snd (AssetTestScene_assets ! j)) targetSize"
        by blast
      from AssetTestScene_loadAsset_component(4)
             [of ImportMeshAsync "fst (AssetTestScene_assets ! j)" "''scene.gltf''" pos
                "snd (AssetTestScene_assets ! j)" targetSize s']
      obtain es where
        es: "console (snd ((?tasks ! j) s')) = console s' @ es"
            "\<forall>e. fst (ImportMeshAsync (''/assets/'' @ fst (AssetTestScene_assets ! j) @ ''/'')
                         ''scene.gltf'' (nodes s')) = Rejected e \<longrightarrow>
                 ErrorLoading (snd (AssetTestScene_assets ! j)) e \<in> set es"
        unfolding eq by blast
      from es(2) rej have "j = i \<longrightarrow> ErrorLoading (snd (AssetTestScene_assets ! i)) err \<in> set es"
        by blast
      with es(1) show ?thesis by blast
    qed
    from settle_console [where failed = "\<lambda>j. j = i"
                           and entry = "\<lambda>j. ErrorLoading (snd (AssetTestScene_assets ! i)) err",
                         OF cstep valid, of "\<lambda>i. Undefined" s]
    obtain es where
      "console (snd (settle ?tasks order (\<lambda>i. Undefined) s)) = console s @ es"
      "\<forall>j\<in>set order. j = i \<longrightarrow> ErrorLoading (snd (AssetTestScene_assets ! i)) err \<in> set es"
      by blast
    moreover have "i \<in> set order" using i order by simp
    ultimately show ?thesis
      by (simp add: AssetTestScene_useEffect_settle component_simps)
  qed
qed

lemma ArcheryGameScene_batch:
  assumes order: "set order = {0..<2}"
    and fate: "\<forall>i<2. \<forall>ns. import_usable ImportMeshAsync (fst (ArcheryGameScene_assets ! i))
                                  ''scene.gltf'' ns = usable i"
  shows "loading (ArcheryGameScene_useEffect ImportMeshAsync localTransform camera order s) = False"
    and "loadedAssets (ArcheryGameScene_useEffect ImportMeshAsync localTransform camera order s) =
           loadedAssets s @ map (\<lambda>i. snd (ArcheryGameScene_assets ! i)) (filter usable order)"
    and "i < 2 \<Longrightarrow>
         \<forall>ns. fst (ImportMeshAsync (''/assets/'' @ fst (ArcheryGameScene_assets ! i) @ ''/'')
                     ''scene.gltf'' ns) = Rejected err \<Longrightarrow>
         ErrorLoading (snd (ArcheryGameScene_assets ! i)) err \<in>
           set (console (ArcheryGameScene_useEffect ImportMeshAsync localTransform camera order s))"
proof -
  let ?tasks = "ArcheryGameScene_tasks ImportMeshAsync"
  have valid: "\<forall>i\<in>set order. i < length ?tasks"
    using order by (simp add: length_tasks)
  show "loading (ArcheryGameScene_useEffect ImportMeshAsync localTransform camera order s) = False"
    by (simp add: ArcheryGameScene_useEffect_settle ArcheryGameScene_then_component)
  have step: "loadedAssets (snd ((?tasks ! j) s')) =
              loadedAssets s' @ (if usable j then [snd (ArcheryGameScene_assets ! j)] else [])"
    if "j < length ?tasks" for j s'
  proof -
    from that have j: "j < 2" by (simp add: length_tasks)
    from ArcheryGameScene_tasks_nth [OF j, of ImportMeshAsync] obtain pos rot targetSize where
      "?tasks ! j = ArcheryGameScene_loadAsset ImportMeshAsync (fst (ArcheryGameScene_assets ! j))
                      ''scene.gltf'' pos rot (snd (ArcheryGameScene_assets ! j)) targetSize"
      by blast
    then show ?thesis
      using fate j by (simp add: ArcheryGameScene_loadAsset_component(2))
  qed
  show "loadedAssets (ArcheryGameScene_useEffect ImportMeshAsync localTransform camera order s) =
           loadedAssets s @ map (\<lambda>i. snd (ArcheryGameScene_assets ! i)) (filter usable order)"
    unfolding ArcheryGameScene_useEffect_settle ArcheryGameScene_then_component
    by (rule settle_loadedAssets [where ok = usable, OF step valid])
  show "ErrorLoading (snd (ArcheryGameScene_assets ! i)) err \<in>
           set (console (ArcheryGameScene_useEffect ImportMeshAsync localTransform camera order s))"
    if i: "i < 2"
      and rej: "\<forall>ns. fst (ImportMeshAsync (''/assets/'' @ fst (ArcheryGameScene_assets ! i) @ ''/'')
                     ''scene.gltf'' ns) = Rejected err"
  proof -
    have cstep: "\<exists>es. console (snd ((?tasks ! j) s')) = console s' @ es \<and>
                   (j = i \<longrightarrow> ErrorLoading (snd (ArcheryGameScene_assets ! i)) err \<in> set es)"
      if "j < length ?tasks" for j s'
    proof -
      from that have j: "j < 2" by (simp add: length_tasks)
      from ArcheryGameScene_tasks_nth [OF j, of ImportMeshAsync] obtain pos rot targetSize where
        eq: "?tasks ! j = ArcheryGameScene_loadAsset ImportMeshAsync (fst (ArcheryGameScene_assets ! j))
                        ''scene.gltf'' pos rot (snd (ArcheryGameScene_assets ! j)) targetSize"
        by blast
      from ArcheryGameScene_loadAsset_component(4)
             [of ImportMeshAsync "fst (ArcheryGameScene_assets ! j)" "''scene.gltf''" pos rot
                "snd (ArcheryGameScene_assets ! j)" targetSize s']
      obtain es where
        es: "console (snd ((?tasks ! j) s')) = console s' @ es"
            "\<forall>e. fst (ImportMeshAsync (''/assets/'' @ fst (ArcheryGameScene_assets ! j) @ ''/'')
                         ''scene.gltf'' (nodes s')) = Rejected e \<longrightarrow>
                 ErrorLoading (snd (ArcheryGameScene_assets ! j)) e \<in> set es"
        unfolding eq by blast
      from es(2) rej have "j = i \<longrightarrow> ErrorLoading (snd (ArcheryGameScene_assets ! i)) err \<in> set es"
        by blast
      with es(1) show ?thesis by blast
    qed
    from settle_console [where failed = "\<lambda>j. j = i"
                           and entry = "\<lambda>j. ErrorLoading (snd (ArcheryGameScene_assets ! i)) err",
                         OF cstep valid, of "\<lambda>i. Undefined" s]
    obtain es where
      "console (snd (settle ?tasks order (\<lambda>i. Undefined) s)) = console s @ es"
      "\<forall>j\<in>set order. j = i \<longrightarrow> ErrorLoading (snd (ArcheryGameScene_assets ! i)) err \<in> set es"
      by blast
    moreover have "i \<in> set order" using i order by simp
    moreover from ArcheryGameScene_then_component(3)
      [of localTransform camera
          "map (fst (settle ?tasks order (\<lambda>i. Undefined) s)) [0..<2]"
          "snd (settle ?tasks order (\<lambda>i. Undefined) s)"]
    obtain es' where
      "console (ArcheryGameScene_then localTransform camera
                  (map (fst (settle ?tasks order (\<lambda>i. Undefined) s)) [0..<2])
                  (snd (settle ?tasks order (\<lambda>i. Undefined) s))) =
       console (snd (settle ?tasks order (\<lambda>i. Undefined) s)) @ es'"
      by blast
    ultimately show ?thesis
      by (simp add: ArcheryGameScene_useEffect_settle)
  qed
qed

lemma below_3: "i < 3 \<longleftrightarrow> i = 0 \<or> i = 1 \<or> i = (2::nat)"
  by auto

lemma below_2: "i < 2 \<longleftrightarrow> i = 0 \<or> i = (1::nat)"
  by auto

lemma instanceofMesh_steps:
  "instanceofMesh (nodes (scale_step r f s) n) = instanceofMesh (nodes s n)"
  "instanceofMesh (nodes (AssetTestScene_position_step r pos s) n) = instanceofMesh (nodes s n)"
  "instanceofMesh (nodes (ArcheryGameScene_position_step r pos rot s) n) = instanceofMesh (nodes s n)"
  by (simp_all add: nodes_scale_step AssetTestScene_position_step_cases
      ArcheryGameScene_position_step_cases nodes_set_position nodes_set_rotation
      split: option.split)

lemma ArcheryGameScene_loadAsset_instanceofMesh:
  "instanceofMesh (nodes (snd (ArcheryGameScene_loadAsset ImportMeshAsync folderPath fileName
                                  pos rot name targetSize s)) n) =
   instanceofMesh (snd (ImportMeshAsync (''/assets/'' @ folderPath @ ''/'') fileName (nodes s)) n)"
proof -
  obtain result ns where
    imp: "ImportMeshAsync (''/assets/'' @ folderPath @ ''/'') fileName (nodes s) = (result, ns)"
    by (cases "ImportMeshAsync (''/assets/'' @ folderPath @ ''/'') fileName (nodes s)")
  show ?thesis
  proof (cases result)
    case (Rejected err)
    note run = ArcheryGameScene_loadAsset_rejected
                 [where ImportMeshAsync = ImportMeshAsync and s = s and folderPath = folderPath
                    and fileName = fileName and err = err and ns = ns, OF imp [unfolded Rejected]]
    show ?thesis
      unfolding run using imp by (simp add: nodes_console_write)
  next
    case (Resolved result_meshes)
    show ?thesis
    proof (cases "filter (\<lambda>m. instanceofMesh (ns m)) result_meshes = []")
      case True
      note run = ArcheryGameScene_loadAsset_no_geometry
                 [where ImportMeshAsync = ImportMeshAsync and s = s and folderPath = folderPath
                    and fileName = fileName and result_meshes = result_meshes and ns = ns,
                  OF imp [unfolded Resolved] True]
      show ?thesis
        unfolding run using imp by (simp add: nodes_console_write)
    next
      case False
      note run = ArcheryGameScene_loadAsset_success
                 [where ImportMeshAsync = ImportMeshAsync and s = s and folderPath = folderPath
                    and fileName = fileName and result_meshes = result_meshes and ns = ns,
                  OF imp [unfolded Resolved] False]
      show ?thesis
        unfolding run Let_def using imp
        by (simp add: nodes_console_write nodes_setLoadedAssets instanceofMesh_steps)
    qed
  qed
qed

section \<open>Partial failure\<close>

text \<open>
  Claim C7. In both scenes, for every completion order of the batch and every import
  whose fate does not depend on the moment it settles: the loading flag is false once
  all tasks have settled; the loaded-assets list has gained exactly the names of the
  assets whose import was usable, in completion order, so an asset whose import failed
  is merely missing and the others are present; and an error thrown by an asset's import
  is in the console, logged under that asset's name.
\<close>

theorem partial_failure_is_contained:
  assumes order: "distinct order" "set order = {0..<3}"
    and fate: "\<forall>i<3. \<forall>ns. import_usable ImportMeshAsync (fst (AssetTestScene_assets ! i))
                                  ''scene.gltf'' ns = usable i"
    and order': "distinct order'" "set order' = {0..<2}"
    and fate': "\<forall>i<2. \<forall>ns. import_usable ImportMeshAsync' (fst (ArcheryGameScene_assets ! i))
                                  ''scene.gltf'' ns = usable' i"
  shows "loading (AssetTestScene_useEffect ImportMeshAsync order s) = False \<and>
         loadedAssets (AssetTestScene_useEffect ImportMeshAsync order s) =
           loadedAssets s @ map (\<lambda>i. snd (AssetTestScene_assets ! i)) (filter usable order) \<and>
         (\<forall>i<3. \<forall>err.
            (\<forall>ns. fst (ImportMeshAsync (''/assets/'' @ fst (AssetTestScene_assets ! i) @ ''/'')
                         ''scene.gltf'' ns) = Rejected err) \<longrightarrow>
            ErrorLoading (snd (AssetTestScene_assets ! i)) err \<in>
              set (console (AssetTestScene_useEffect ImportMeshAsync order s))) \<and>
         loading (ArcheryGameScene_useEffect ImportMeshAsync' localTransform camera order' s) = False \<and>
         loadedAssets (ArcheryGameScene_useEffect ImportMeshAsync' localTransform camera order' s) =
           loadedAssets s @ map (\<lambda>i. snd (ArcheryGameScene_assets ! i)) (filter usable' order') \<and>
         (\<forall>i<2. \<forall>err.
            (\<forall>ns. fst (ImportMeshAsync' (''/assets/'' @ fst (ArcheryGameScene_assets ! i) @ ''/'')
                         ''scene.gltf'' ns) = Rejected err) \<longrightarrow>
            ErrorLoading (snd (ArcheryGameScene_assets ! i)) err \<in>
              set (console (ArcheryGameScene_useEffect ImportMeshAsync' localTransform camera order' s)))"
  using AssetTestScene_batch [OF order(2) fate, where s = s]
    ArcheryGameScene_batch [OF order'(2) fate', where s = s and localTransform = localTransform
                               and camera = camera]
  by blast

theorem partial_failure_is_contained_witness:
  "loading (AssetTestScene_useEffect import_arrow_missing [2, 0, 1]
              (initial_state empty_scene)) = False \<and>
   loadedAssets (AssetTestScene_useEffect import_arrow_missing [2, 0, 1]
                   (initial_state empty_scene)) = [''Target'', ''Recurve Bow''] \<and>
   ErrorLoading ''Arrow'' (ErrorObject ''404'') \<in>
     set (console (AssetTestScene_useEffect import_arrow_missing [2, 0, 1]
                     (initial_state empty_scene))) \<and>
   loading (ArcheryGameScene_useEffect import_bow_missing unit_transform 9 [1, 0]
              (initial_state empty_scene)) = False \<and>
   loadedAssets (ArcheryGameScene_useEffect import_bow_missing unit_transform 9 [1, 0]
                   (initial_state empty_scene)) = [''Target''] \<and>
   ErrorLoading ''Recurve Bow'' (ErrorObject ''404'') \<in>
     set (console (ArcheryGameScene_useEffect import_bow_missing unit_transform 9 [1, 0]
                     (initial_state empty_scene)))"
proof -
  have o: "distinct [2, 0, 1::nat]" "set [2, 0, 1::nat] = {0..<3}"
    by (auto simp: below_3)
  have o': "distinct [1, 0::nat]" "set [1, 0::nat] = {0..<2}"
    by (auto simp: below_2)
  have fate: "\<forall>i<3. \<forall>ns. import_usable import_arrow_missing (fst (AssetTestScene_assets ! i))
                                ''scene.gltf'' ns = (i \<noteq> 1)"
    by (simp add: below_3 import_usable_def import_arrow_missing_def AssetTestScene_assets_def
        mesh_a_def)
  have fate': "\<forall>i<2. \<forall>ns. import_usable import_bow_missing (fst (ArcheryGameScene_assets ! i))
                                ''scene.gltf'' ns = (i \<noteq> 0)"
    by (simp add: below_2 import_usable_def import_bow_missing_def ArcheryGameScene_assets_def
        mesh_a_def)
  have rej: "\<forall>ns. fst (import_arrow_missing (''/assets/'' @ fst (AssetTestScene_assets ! 1) @ ''/'')
                         ''scene.gltf'' ns) = Rejected (ErrorObject ''404'')"
    by (simp add: import_arrow_missing_def AssetTestScene_assets_def)
  have rej': "\<forall>ns. fst (import_bow_missing (''/assets/'' @ fst (ArcheryGameScene_assets ! 0) @ ''/'')
                         ''scene.gltf'' ns) = Rejected (ErrorObject ''404'')"
    by (simp add: import_bow_missing_def ArcheryGameScene_assets_def)
  note inst = partial_failure_is_contained
                [where ImportMeshAsync = import_arrow_missing and order = "[2, 0, 1]"
                   and usable = "\<lambda>i. i \<noteq> 1"
                   and ImportMeshAsync' = import_bow_missing and order' = "[1, 0]"
                   and usable' = "\<lambda>i. i \<noteq> 0"
                   and s = "initial_state empty_scene"
                   and localTransform = unit_transform and camera = 9,
                 OF o fate o' fate']
  from inst have
    a: "loading (AssetTestScene_useEffect import_arrow_missing [2, 0, 1]
              (initial_state empty_scene)) = False"
    and b: "loadedAssets (AssetTestScene_useEffect import_arrow_missing [2, 0, 1]
              (initial_state empty_scene)) =
            loadedAssets (initial_state empty_scene) @
              map (\<lambda>i. snd (AssetTestScene_assets ! i)) (filter (\<lambda>i. i \<noteq> 1) [2, 0, 1])"
    and c: "\<forall>i<3. \<forall>err.
            (\<forall>ns. fst (import_arrow_missing (''/assets/'' @ fst (AssetTestScene_assets ! i) @ ''/'')
                         ''scene.gltf'' ns) = Rejected err) \<longrightarrow>
            ErrorLoading (snd (AssetTestScene_assets ! i)) err \<in>
              set (console (AssetTestScene_useEffect import_arrow_missing [2, 0, 1]
                              (initial_state empty_scene)))"
    and a': "loading (ArcheryGameScene_useEffect import_bow_missing unit_transform 9 [1, 0]
              (initial_state empty_scene)) = False"
    and b': "loadedAssets (ArcheryGameScene_useEffect import_bow_missing unit_transform 9 [1, 0]
              (initial_state empty_scene)) =
            loadedAssets (initial_state empty_scene) @
              map (\<lambda>i. snd (ArcheryGameScene_assets ! i)) (filter (\<lambda>i. i \<noteq> 0) [1, 0])"
    and c': "\<forall>i<2. \<forall>err.
            (\<forall>ns. fst (import_bow_missing (''/assets/'' @ fst (ArcheryGameScene_assets ! i) @ ''/'')
                         ''scene.gltf'' ns) = Rejected err) \<longrightarrow>
            ErrorLoading (snd (ArcheryGameScene_assets ! i)) err \<in>
              set (console (ArcheryGameScene_useEffect import_bow_missing unit_transform 9 [1, 0]
                              (initial_state empty_scene)))"
    by blast+
  from c rej have e: "ErrorLoading (snd (AssetTestScene_assets ! 1)) (ErrorObject ''404'') \<in>
              set (console (AssetTestScene_useEffect import_arrow_missing [2, 0, 1]
                              (initial_state empty_scene)))"
    by (metis below_3)
  from c' rej' have e': "ErrorLoading (snd (ArcheryGameScene_assets ! 0)) (ErrorObject ''404'') \<in>
              set (console (ArcheryGameScene_useEffect import_bow_missing unit_transform 9 [1, 0]
                              (initial_state empty_scene)))"
    by (metis below_2)
  from a b e a' b' e' show ?thesis
    by (simp add: initial_state_def AssetTestScene_assets_def ArcheryGameScene_assets_def)
qed

section \<open>What a placement returns and lists\<close>

lemma import_ab_facts:
  "import_ab (''/assets/'' @ ''target'' @ ''/'') ''scene.gltf'' (nodes (initial_state empty_scene)) =
     (Resolved [0, 1], empty_scene(0 := mesh_a, 1 := mesh_b))"
  "find_rootMesh (empty_scene(0 := mesh_a, 1 := mesh_b)) [0, 1] = 0"
  "import_usable import_ab folderPath fileName ns"
  by (simp_all add: import_ab_def initial_state_def find_rootMesh_def import_usable_def mesh_a_def)

text \<open>
  A successful placement in the asset test scene: the name is appended, and the call
  returns \<open>undefined\<close>, not the root mesh (which is at reference 0).
\<close>

theorem AssetTestScene_loadAsset_returns_undefined:
  "loadedAssets (snd (AssetTestScene_loadAsset import_ab ''target'' ''scene.gltf''
                        (Vector3 4 1 0) ''Target'' 3 (initial_state empty_scene))) = [''Target''] \<and>
   fst (AssetTestScene_loadAsset import_ab ''target'' ''scene.gltf''
          (Vector3 4 1 0) ''Target'' 3 (initial_state empty_scene)) = Undefined \<and>
   find_rootMesh (empty_scene(0 := mesh_a, 1 := mesh_b)) [0, 1] = 0 \<and>
   Undefined \<noteq> NodeRef 0"
  using import_ab_facts(2)
  by (simp add: AssetTestScene_loadAsset_component import_ab_facts(3) initial_state_def)

text \<open>
  Claim C5, as amended. For every placement that succeeds, \<open>loadAsset\<close> of the game
  scene returns the root mesh and \<open>loadAsset\<close> of the asset test scene returns
  \<open>undefined\<close>; both append exactly one entry, the asset's display name, to the
  loaded-assets list. When every import of a batch is usable, the list gains the display
  names in the completion order of the loads, whatever the request order.
\<close>

theorem placement_result_and_list:
  assumes imp: "ImportMeshAsync (''/assets/'' @ folderPath @ ''/'') fileName (nodes s) =
                  (Resolved result_meshes, ns)"
    and usable: "filter (\<lambda>m. instanceofMesh (ns m)) result_meshes \<noteq> []"
    and order: "distinct order" "set order = {0..<3}"
    and fate: "\<forall>i<3. \<forall>ns. import_usable ImportMeshAsync' (fst (AssetTestScene_assets ! i))
                                  ''scene.gltf'' ns"
    and order': "distinct order'" "set order' = {0..<2}"
    and fate': "\<forall>i<2. \<forall>ns. import_usable ImportMeshAsync'' (fst (ArcheryGameScene_assets ! i))
                                  ''scene.gltf'' ns"
  shows "fst (ArcheryGameScene_loadAsset ImportMeshAsync folderPath fileName
                pos rot name targetSize s) = NodeRef (find_rootMesh ns result_meshes) \<and>
         loadedAssets (snd (ArcheryGameScene_loadAsset ImportMeshAsync folderPath fileName
                              pos rot name targetSize s)) = loadedAssets s @ [name] \<and>
         fst (AssetTestScene_loadAsset ImportMeshAsync folderPath fileName
                pos name targetSize s) = Undefined \<and>
         loadedAssets (snd (AssetTestScene_loadAsset ImportMeshAsync folderPath fileName
                              pos name targetSize s)) = loadedAssets s @ [name] \<and>
         loadedAssets (AssetTestScene_useEffect ImportMeshAsync' order s') =
           loadedAssets s' @ map (\<lambda>i. snd (AssetTestScene_assets ! i)) order \<and>
         loadedAssets (ArcheryGameScene_useEffect ImportMeshAsync'' localTransform camera order' s') =
           loadedAssets s' @ map (\<lambda>i. snd (ArcheryGameScene_assets ! i)) order'"
proof -
  have u: "import_usable ImportMeshAsync folderPath fileName (nodes s)"
    using imp usable by (simp add: import_usable_def)
  have g: "fst (ArcheryGameScene_loadAsset ImportMeshAsync folderPath fileName
                pos rot name targetSize s) = NodeRef (find_rootMesh ns result_meshes)"
    using imp u by (simp add: ArcheryGameScene_loadAsset_component(3))
  have f: "\<forall>i<3. \<forall>ns. import_usable ImportMeshAsync' (fst (AssetTestScene_assets ! i))
                                  ''scene.gltf'' ns = (\<lambda>i. True) i"
    using fate by simp
  have f': "\<forall>i<2. \<forall>ns. import_usable ImportMeshAsync'' (fst (ArcheryGameScene_assets ! i))
                                  ''scene.gltf'' ns = (\<lambda>i. True) i"
    using fate' by simp
  show ?thesis
    using g u AssetTestScene_batch(2) [OF order(2) f, where s = s']
      ArcheryGameScene_batch(2) [OF order'(2) f', where s = s' and localTransform = localTransform
                                   and camera = camera]
    by (simp add: ArcheryGameScene_loadAsset_component(2) AssetTestScene_loadAsset_component(2,3))
qed

theorem placement_result_and_list_witness:
  "fst (ArcheryGameScene_loadAsset import_ab ''target'' ''scene.gltf''
          (Vector3 0 (3 / 2) 12) (Vector3 0 (pi / 2) 0) ''Target'' 4
          (initial_state empty_scene)) = NodeRef 0 \<and>
   loadedAssets (snd (ArcheryGameScene_loadAsset import_ab ''target'' ''scene.gltf''
                        (Vector3 0 (3 / 2) 12) (Vector3 0 (pi / 2) 0) ''Target'' 4
                        (initial_state empty_scene))) = [''Target''] \<and>
   loadedAssets (AssetTestScene_useEffect import_ab [2, 0, 1] (initial_state empty_scene)) =
     [''Target'', ''Recurve Bow'', ''Arrow''] \<and>
   loadedAssets (ArcheryGameScene_useEffect import_ab unit_transform 9 [1, 0]
                   (initial_state empty_scene)) = [''Target'', ''Recurve Bow'']"
proof -
  let ?ns = "empty_scene(0 := mesh_a, 1 := mesh_b)"
  have usable: "filter (\<lambda>m. instanceofMesh (?ns m)) [0, 1] \<noteq> []"
    by (simp add: mesh_a_def)
  have o: "distinct [2, 0, 1::nat]" "set [2, 0, 1::nat] = {0..<3}"
    by (auto simp: below_3)
  have o': "distinct [1, 0::nat]" "set [1, 0::nat] = {0..<2}"
    by (auto simp: below_2)
  have fate: "\<forall>i<3. \<forall>ns. import_usable import_ab (fst (AssetTestScene_assets ! i)) ''scene.gltf'' ns"
    by (simp add: import_ab_facts(3))
  have fate': "\<forall>i<2. \<forall>ns. import_usable import_ab (fst (ArcheryGameScene_assets ! i)) ''scene.gltf'' ns"
    by (simp add: import_ab_facts(3))
  note inst = placement_result_and_list
                [where ImportMeshAsync = import_ab and folderPath = "''target''"
                   and fileName = "''scene.gltf''" and s = "initial_state empty_scene"
                   and result_meshes = "[0, 1]" and ns = "?ns"
                   and order = "[2, 0, 1]" and ImportMeshAsync' = import_ab
                   and order' = "[1, 0]" and ImportMeshAsync'' = import_ab
                   and pos = "Vector3 0 (3 / 2) 12" and rot = "Vector3 0 (pi / 2) 0"
                   and name = "''Target''" and targetSize = 4
                   and s' = "initial_state empty_scene"
                   and localTransform = unit_transform and camera = 9,
                 OF import_ab_facts(1) usable o fate o' fate']
  from inst import_ab_facts(2) show ?thesis
    by (simp add: initial_state_def AssetTestScene_assets_def ArcheryGameScene_assets_def)
qed

section \<open>A degenerate bounding box\<close>

lemma js_div_zero:
  "js_div a 0 = (if a > 0 then PosInfinity else if a < 0 then NegInfinity else NaN)"
  by (simp add: js_div_def)

text \<open>
  Claim C8. When the combined bounding box is degenerate (\<open>currentSize = 0\<close>), for
  a root that is not its own parent, the division is carried out all the same: the scale factor is \<open>Infinity\<close>,
  \<open>-Infinity\<close> or \<open>NaN\<close>, never a finite number, and it is written to the scale
  target. Nothing is thrown: the position is still assigned, the display name is still
  appended to the loaded-assets list, and the game scene's \<open>loadAsset\<close> still returns
  the root mesh.
\<close>

theorem degenerate_box_is_not_guarded:
  assumes imp: "ImportMeshAsync (''/assets/'' @ folderPath @ ''/'') fileName (nodes s) =
                  (Resolved result_meshes, ns)"
    and meshes: "meshes = filter (\<lambda>m. instanceofMesh (ns m)) result_meshes" "meshes \<noteq> []"
    and bb: "bb = union_box (map ns meshes)"
    and degenerate: "max (max \<bar>vx (bb_size bb)\<bar> \<bar>vy (bb_size bb)\<bar>) \<bar>vz (bb_size bb)\<bar> = 0"
    and root: "rootMesh = find_rootMesh ns result_meshes"
    and acyclic: "parent (ns rootMesh) \<noteq> Some rootMesh"
    and f: "f = (if targetSize > 0 then PosInfinity else if targetSize < 0 then NegInfinity else NaN)"
  shows "(\<forall>x. f \<noteq> Finite x) \<and>
         scaling (nodes (snd (AssetTestScene_loadAsset ImportMeshAsync folderPath fileName
                                pos name targetSize s)) (scale_target ns rootMesh)) =
           Some (Vector3 f f f) \<and>
         position (nodes (snd (AssetTestScene_loadAsset ImportMeshAsync folderPath fileName
                                 pos name targetSize s)) (position_target ns rootMesh)) = Some pos \<and>
         loadedAssets (snd (AssetTestScene_loadAsset ImportMeshAsync folderPath fileName
                              pos name targetSize s)) = loadedAssets s @ [name] \<and>
         scaling (nodes (snd (ArcheryGameScene_loadAsset ImportMeshAsync folderPath fileName
                                pos rot name targetSize s)) (scale_target ns rootMesh)) =
           Some (Vector3 f f f) \<and>
         position (nodes (snd (ArcheryGameScene_loadAsset ImportMeshAsync folderPath fileName
                                 pos rot name targetSize s)) (position_target ns rootMesh)) = Some pos \<and>
         loadedAssets (snd (ArcheryGameScene_loadAsset ImportMeshAsync folderPath fileName
                              pos rot name targetSize s)) = loadedAssets s @ [name] \<and>
         fst (ArcheryGameScene_loadAsset ImportMeshAsync folderPath fileName
                pos rot name targetSize s) = NodeRef rootMesh"
proof -
  have usable: "filter (\<lambda>m. instanceofMesh (ns m)) result_meshes \<noteq> []"
    using meshes by simp
  have ac: "parent (ns (find_rootMesh ns result_meshes)) \<noteq> Some (find_rootMesh ns result_meshes)"
    using acyclic root by simp
  have u: "import_usable ImportMeshAsync folderPath fileName (nodes s)"
    using imp usable by (simp add: import_usable_def)
  have ft: "AssetTestScene_scaleFactor targetSize
              (union_box (map ns (filter (\<lambda>m. instanceofMesh (ns m)) result_meshes))) = f"
    unfolding bb [unfolded meshes(1), symmetric] AssetTestScene_scaleFactor_def
      AssetTestScene_currentSize_def degenerate f
    by (rule js_div_zero)
  have fg: "ArcheryGameScene_scaleFactor targetSize
              (union_box (map ns (filter (\<lambda>m. instanceofMesh (ns m)) result_meshes))) = f"
    unfolding bb [unfolded meshes(1), symmetric] ArcheryGameScene_scaleFactor_def
      ArcheryGameScene_currentSize_def degenerate f
    by (rule js_div_zero)
  note T = AssetTestScene_loadAsset_store
             [where ImportMeshAsync = ImportMeshAsync and s = s and folderPath = folderPath
                and fileName = fileName and result_meshes = result_meshes and ns = ns
                and pos = pos and name = name and targetSize = targetSize,
              OF imp usable ac, unfolded ft Let_def, folded root]
  note G = ArcheryGameScene_loadAsset_store
             [where ImportMeshAsync = ImportMeshAsync and s = s and folderPath = folderPath
                and fileName = fileName and result_meshes = result_meshes and ns = ns
                and pos = pos and rot = rot and name = name and targetSize = targetSize,
              OF imp usable ac, unfolded fg Let_def, folded root]
  have nf: "\<forall>x. f \<noteq> Finite x" using f by simp
  have g: "fst (ArcheryGameScene_loadAsset ImportMeshAsync folderPath fileName
                pos rot name targetSize s) = NodeRef rootMesh"
    using imp u root by (simp add: ArcheryGameScene_loadAsset_component(3))
  show ?thesis
    using nf g u
    by (simp add: T G ArcheryGameScene_loadAsset_component(2) AssetTestScene_loadAsset_component(2))
qed

lemma point_facts:
  "import_point (''/assets/'' @ ''arrow'' @ ''/'') ''scene.gltf''
     (nodes (initial_state empty_scene)) = (Resolved [5], empty_scene(5 := mesh_point))"
  "[5] = filter (\<lambda>m. instanceofMesh ((empty_scene(5 := mesh_point)) m)) [5]"
  "5 = find_rootMesh (empty_scene(5 := mesh_point)) [5]"
  "scale_target (empty_scene(5 := mesh_point)) 5 = 5"
  "position_target (empty_scene(5 := mesh_point)) 5 = 5"
  "parent ((empty_scene(5 := mesh_point)) 5) \<noteq> Some 5"
  "union_box [mesh_point] =
     \<lparr>bb_min = Vector3 1 1 1, bb_max = Vector3 1 1 1, bb_size = Vector3 0 0 0\<rparr>"
  by (simp_all add: import_point_def initial_state_def mesh_point_def
      find_rootMesh_def scale_target_def position_target_def union_box_single)

theorem degenerate_box_is_not_guarded_witness:
  "scaling (nodes (snd (AssetTestScene_loadAsset import_point ''arrow'' ''scene.gltf''
                          (Vector3 0 1 0) ''Arrow'' 5 (initial_state empty_scene))) 5) =
     Some (Vector3 PosInfinity PosInfinity PosInfinity) \<and>
   position (nodes (snd (AssetTestScene_loadAsset import_point ''arrow'' ''scene.gltf''
                           (Vector3 0 1 0) ''Arrow'' 5 (initial_state empty_scene))) 5) =
     Some (Vector3 0 1 0) \<and>
   loadedAssets (snd (AssetTestScene_loadAsset import_point ''arrow'' ''scene.gltf''
                        (Vector3 0 1 0) ''Arrow'' 5 (initial_state empty_scene))) = [''Arrow''] \<and>
   scaling (nodes (snd (ArcheryGameScene_loadAsset import_point ''arrow'' ''scene.gltf''
                          (Vector3 0 1 0) (Vector3 0 0 0) ''Arrow'' 5
                          (initial_state empty_scene))) 5) =
     Some (Vector3 PosInfinity PosInfinity PosInfinity) \<and>
   loadedAssets (snd (ArcheryGameScene_loadAsset import_point ''arrow'' ''scene.gltf''
                        (Vector3 0 1 0) (Vector3 0 0 0) ''Arrow'' 5
                        (initial_state empty_scene))) = [''Arrow''] \<and>
   fst (ArcheryGameScene_loadAsset import_point ''arrow'' ''scene.gltf''
          (Vector3 0 1 0) (Vector3 0 0 0) ''Arrow'' 5 (initial_state empty_scene)) = NodeRef 5"
proof -
  let ?ns = "empty_scene(5 := mesh_point)"
  let ?bb = "\<lparr>bb_min = Vector3 1 1 1, bb_max = Vector3 1 1 1, bb_size = Vector3 0 0 (0::real)\<rparr>"
  have ne: "[5::nat] \<noteq> []" by simp
  have bb: "?bb = union_box (map ?ns [5])"
    by (simp add: point_facts(7))
  have degenerate: "max (max \<bar>vx (bb_size ?bb)\<bar> \<bar>vy (bb_size ?bb)\<bar>) \<bar>vz (bb_size ?bb)\<bar> = 0"
    by simp
  have f: "PosInfinity = (if (5::real) > 0 then PosInfinity else if (5::real) < 0 then NegInfinity else NaN)"
    by simp
  note inst = degenerate_box_is_not_guarded
                [where ImportMeshAsync = import_point and folderPath = "''arrow''"
                   and fileName = "''scene.gltf''" and s = "initial_state empty_scene"
                   and result_meshes = "[5]" and ns = "?ns" and meshes = "[5]" and bb = "?bb"
                   and rootMesh = 5 and f = PosInfinity and targetSize = 5
                   and pos = "Vector3 0 1 0" and rot = "Vector3 0 0 0" and name = "''Arrow''",
                 OF point_facts(1) point_facts(2) ne bb degenerate point_facts(3) point_facts(6) f,
                 unfolded point_facts(4,5)]
  from inst show ?thesis
    by (simp add: initial_state_def)
qed

section \<open>An import without usable meshes\<close>

text \<open>
  What both files do when no node of the import is an instance of \<open>Mesh\<close>: no
  transform is written (the store is the one the import left), nothing is appended to
  the loaded-assets list, and the call ends. The asset test scene warns in every such
  case; the game scene warns only if \<open>result.meshes\<close> is not empty.
\<close>

lemma no_geometry_is_a_no_op:
  assumes imp: "ImportMeshAsync (''/assets/'' @ folderPath @ ''/'') fileName (nodes s) =
                  (Resolved result_meshes, ns)"
    and none: "filter (\<lambda>m. instanceofMesh (ns m)) result_meshes = []"
  shows "AssetTestScene_loadAsset ImportMeshAsync folderPath fileName pos name targetSize s =
           (Undefined,
            s\<lparr>nodes := ns,
              console := console s @
                [if result_meshes = [] then WarnNoMeshes name else WarnNoValidMeshes name]\<rparr>)"
    and "ArcheryGameScene_loadAsset ImportMeshAsync folderPath fileName pos rot name targetSize s =
           (Null,
            s\<lparr>nodes := ns,
              console := console s @
                (if result_meshes = [] then [] else [WarnNoValidMeshes name])\<rparr>)"
  unfolding AssetTestScene_loadAsset_no_geometry
      [where ImportMeshAsync = ImportMeshAsync and s = s and folderPath = folderPath
         and fileName = fileName and result_meshes = result_meshes and ns = ns, OF imp none]
    ArcheryGameScene_loadAsset_no_geometry
      [where ImportMeshAsync = ImportMeshAsync and s = s and folderPath = folderPath
         and fileName = fileName and result_meshes = result_meshes and ns = ns, OF imp none]
  by (simp_all add: console_write_def)

text \<open>
  Claim C6 at an import that resolves with an empty \<open>result.meshes\<close>: \<open>loadAsset\<close>
  of the game scene returns \<open>null\<close> and leaves the state as it was, the console
  included, so no diagnostic is logged; \<open>loadAsset\<close> of the asset test scene logs the
  warning that the asset has no meshes.
\<close>

theorem ArcheryGameScene_empty_import_is_silent:
  "ArcheryGameScene_loadAsset import_nothing ''target'' ''scene.gltf''
     (Vector3 0 (3 / 2) 12) (Vector3 0 (pi / 2) 0) ''Target'' 4 (initial_state empty_scene) =
     (Null, initial_state empty_scene) \<and>
   console (initial_state empty_scene) = [] \<and>
   AssetTestScene_loadAsset import_nothing ''target'' ''scene.gltf''
     (Vector3 4 1 0) ''Target'' 3 (initial_state empty_scene) =
     (Undefined, (initial_state empty_scene)\<lparr>console := [WarnNoMeshes ''Target'']\<rparr>)"
  by (simp add: ArcheryGameScene_loadAsset_def AssetTestScene_loadAsset_def import_nothing_def
      initial_state_def console_write_def Let_def)

section \<open>The bow in the game scene\<close>

lemma nodes_setParent:
  "nodes (setParent localTransform n p s) m =
     (if m = n
      then (nodes s n)\<lparr>parent := Some p,
                         scaling := Some (fst (localTransform (nodes s) n p)),
                         position := Some (snd (snd (localTransform (nodes s) n p))),
                         rotation := Some (fst (snd (localTransform (nodes s) n p)))\<rparr>
      else nodes s m)"
  by (simp add: setParent_def split: prod.split)

text \<open>
  Claim C10. In the game scene, once all loads have settled: if the bow's \<open>loadAsset\<close>
  returned a node and that node is an instance of \<open>Mesh\<close>, the node's parent is the
  camera, its position is \<open>(0, -0.2, 1.2)\<close> and its rotation is
  \<open>(0, pi/12, pi/2)\<close>. The bow was requested with position \<open>(0, 0, 0)\<close> and rotation
  \<open>(0, 0, 0)\<close>, and neither is its final transform.
\<close>

theorem bow_is_reparented_to_camera:
  assumes run: "Promise_all (ArcheryGameScene_tasks ImportMeshAsync) order s = (results, s1)"
    and bow: "results ! 0 = NodeRef bow" "instanceofMesh (nodes s1 bow)"
    and final: "s2 = ArcheryGameScene_useEffect ImportMeshAsync localTransform camera order s"
  shows "ArcheryGameScene_tasks ImportMeshAsync ! 0 =
           ArcheryGameScene_loadAsset ImportMeshAsync ''recurve_bow'' ''scene.gltf''
             (Vector3 0 0 0) (Vector3 0 0 0) ''Recurve Bow'' 0.8 \<and>
         parent (nodes s2 bow) = Some camera \<and>
         position (nodes s2 bow) = Some (Vector3 0 (- 0.2) 1.2) \<and>
         rotation (nodes s2 bow) = Some (Vector3 0 (pi / 12) (pi / 2)) \<and>
         position (nodes s2 bow) \<noteq> Some (Vector3 0 0 0) \<and>
         rotation (nodes s2 bow) \<noteq> Some (Vector3 0 0 0) \<and>
         loading s2 = False"
proof -
  have s2: "s2 = ArcheryGameScene_then localTransform camera results s1"
    using run final by (simp add: ArcheryGameScene_useEffect_def)
  have n: "nodes s2 bow =
             (nodes s1 bow)\<lparr>parent := Some camera,
                              scaling := Some (fst (localTransform (nodes s1) bow camera)),
                              position := Some (Vector3 0 (- 0.2) 1.2),
                              rotation := Some (Vector3 0 (pi / 12) (pi / 2))\<rparr>"
    unfolding s2 ArcheryGameScene_then_def Let_def
    using bow
    by (simp add: nodes_console_write component_setLoading nodes_set_position nodes_set_rotation
        nodes_setParent split: js_value.split)
  have l: "loading s2 = False"
    unfolding s2 by (rule ArcheryGameScene_then_component(1))
  have t: "ArcheryGameScene_tasks ImportMeshAsync ! 0 =
           ArcheryGameScene_loadAsset ImportMeshAsync ''recurve_bow'' ''scene.gltf''
             (Vector3 0 0 0) (Vector3 0 0 0) ''Recurve Bow'' 0.8"
    by (simp add: ArcheryGameScene_tasks_def)
  from n l t show ?thesis by simp
qed

lemma Promise_all_target_first:
  "Promise_all (ArcheryGameScene_tasks ImportMeshAsync) [1, 0] s =
     ([fst ((ArcheryGameScene_tasks ImportMeshAsync ! 0)
              (snd ((ArcheryGameScene_tasks ImportMeshAsync ! 1) s))),
       fst ((ArcheryGameScene_tasks ImportMeshAsync ! 1) s)],
      snd ((ArcheryGameScene_tasks ImportMeshAsync ! 0)
             (snd ((ArcheryGameScene_tasks ImportMeshAsync ! 1) s))))"
  by (simp add: Promise_all_def length_tasks upt_rec split: prod.split)

lemma import_scene_bow:
  "import_scene ''/assets/recurve_bow/'' fileName ns =
     (Resolved [4], ns(4 := mesh_c, 3 := wrapper))"
  "import_usable import_scene ''recurve_bow'' fileName ns"
  "find_rootMesh (ns(4 := mesh_c, 3 := wrapper)) [4] = 4"
  by (simp_all add: import_scene_def import_usable_def find_rootMesh_def mesh_c_def)

theorem bow_is_reparented_to_camera_witness:
  "parent (nodes (ArcheryGameScene_useEffect import_scene unit_transform 9 [1, 0]
                    (initial_state empty_scene)) 4) = Some 9 \<and>
   position (nodes (ArcheryGameScene_useEffect import_scene unit_transform 9 [1, 0]
                      (initial_state empty_scene)) 4) = Some (Vector3 0 (- 0.2) 1.2) \<and>
   rotation (nodes (ArcheryGameScene_useEffect import_scene unit_transform 9 [1, 0]
                      (initial_state empty_scene)) 4) = Some (Vector3 0 (pi / 12) (pi / 2))"
proof -
  let ?tasks = "ArcheryGameScene_tasks import_scene"
  let ?s = "initial_state empty_scene"
  let ?s' = "snd ((?tasks ! 1) ?s)"
  let ?results = "[fst ((?tasks ! 0) ?s'), fst ((?tasks ! 1) ?s)]"
  let ?s1 = "snd ((?tasks ! 0) ?s')"
  have t0: "?tasks ! 0 = ArcheryGameScene_loadAsset import_scene ''recurve_bow'' ''scene.gltf''
                           (Vector3 0 0 0) (Vector3 0 0 0) ''Recurve Bow'' 0.8"
    by (simp add: ArcheryGameScene_tasks_def)
  have run: "Promise_all ?tasks [1, 0] ?s = (?results, ?s1)"
    by (rule Promise_all_target_first)
  have ret: "fst ((?tasks ! 0) ?s') = NodeRef 4"
    unfolding t0 ArcheryGameScene_loadAsset_component(3)
    by (simp add: import_scene_bow)
  have bow: "?results ! 0 = NodeRef 4"
    using ret by simp
  have mesh: "instanceofMesh (nodes ?s1 4)"
    unfolding t0 ArcheryGameScene_loadAsset_instanceofMesh
    by (simp add: import_scene_bow(1) mesh_c_def)
  from bow_is_reparented_to_camera
         [where ImportMeshAsync = import_scene and order = "[1, 0]" and s = "?s"
            and results = "?results" and ?s1.0 = "?s1" and bow = 4
            and ?s2.0 = "ArcheryGameScene_useEffect import_scene unit_transform 9 [1, 0] ?s"
            and localTransform = unit_transform and camera = 9,
          OF run bow mesh refl]
  show ?thesis by simp
qed

end
